theory Spec2Isabelle
  imports Complex_Main
begin

section \<open>Exceptions, JSON values and the store\<close>

text \<open>
  The exceptions the profiler code raises or receives from its libraries. All of them are
  subclasses of Python's \<open>Exception\<close>, so an \<open>except Exception\<close> clause catches each of
  them. The payload an exception object carries (a response text, a message) is not
  modelled; \<open>OtherError n\<close> stands for any further library exception.
\<close>

datatype exn =
    TimeoutError
  | StopEventSetException
  | AssertionError
  | NoSuchProcess
  | FileNotFoundError
  | NodeDebuggerUrlNotFound
  | NodeDebuggerUnexpectedResponse
  | KeyError
  | TypeError
  | AttributeError
  | OtherError nat

text \<open>A decoded JSON document, as \<open>json.loads\<close> and \<open>Response.json\<close> return it.\<close>

datatype json =
    JNull
  | JBool bool
  | JInt int
  | JFloat rat
  | JStr string
  | JArr "json list"
  | JObj "(string \<times> json) list"

text \<open>\<open>obj[key]\<close> with a string key: a dict looks the key up, every other value raises.\<close>

fun getitem :: "json \<Rightarrow> string \<Rightarrow> exn + json" where
  "getitem (JObj kvs) k = (case map_of kvs k of None \<Rightarrow> Inl KeyError | Some v \<Rightarrow> Inr v)"
| "getitem _ k = Inl TypeError"

text \<open>\<open>obj.keys()\<close>: only a dict has the method.\<close>

fun keys :: "json \<Rightarrow> exn + string list" where
  "keys (JObj kvs) = Inr (map fst kvs)"
| "keys _ = Inl AttributeError"

text \<open>Python's \<open>==\<close> between a \<open>str\<close> and a decoded JSON value.\<close>

fun str_eq :: "string \<Rightarrow> json \<Rightarrow> bool" where
  "str_eq s (JStr t) = (s = t)"
| "str_eq s _ = False"

text \<open>Python's \<open>==\<close> between an \<open>int\<close> and a decoded JSON value
  (\<open>True == 1\<close> and \<open>5.0 == 5\<close> hold in Python).\<close>

fun int_eq :: "int \<Rightarrow> json \<Rightarrow> bool" where
  "int_eq n (JInt m) = (n = m)"
| "int_eq n (JBool b) = (n = (if b then 1 else 0))"
| "int_eq n (JFloat r) = (of_int n = r)"
| "int_eq n _ = False"

text \<open>\<open>needle in haystack\<close> on strings.\<close>

fun str_contains :: "string \<Rightarrow> string \<Rightarrow> bool" where
  "str_contains needle [] = (needle = [])"
| "str_contains needle (c # cs) =
     (take (length needle) (c # cs) = needle \<or> str_contains needle cs)"

text \<open>\<open>str(n)\<close> for an integer.\<close>

definition digit_char :: "nat \<Rightarrow> char" where
  "digit_char d = ''0123456789'' ! d"

fun str_nat :: "nat \<Rightarrow> string" where
  "str_nat n = (if n < 10 then [digit_char n] else str_nat (n div 10) @ [digit_char (n mod 10)])"

declare str_nat.simps [simp del]

definition str_int :: "int \<Rightarrow> string" where
  "str_int i = (if i < 0 then CHR ''-'' # str_nat (nat (- i)) else str_nat (nat i))"

text \<open>\<open>os.path.join\<close> (posixpath): an absolute component discards what precedes it.\<close>

definition path_join2 :: "string \<Rightarrow> string \<Rightarrow> string" where
  "path_join2 path b =
     (if take 1 b = ''/'' then b
      else if path = [] \<or> last path = CHR ''/'' then path @ b
      else path @ ''/'' @ b)"

definition os_path_join :: "string \<Rightarrow> string list \<Rightarrow> string" where
  "os_path_join a ps = foldl path_join2 a ps"

subsection \<open>Processes, requests and observable events\<close>

text \<open>A \<open>psutil.Process\<close>: equality is by pid and creation time.\<close>

record Process =
  pid :: int
  create_time :: nat

text \<open>A \<open>subprocess.Popen\<close> handle; a stream is absent when it was not piped, otherwise it
  holds what reading it returns.\<close>

record Popen =
  popen_id :: nat
  stdout :: "string option"
  stderr :: "string option"

text \<open>The request of the debug protocol that \<open>node.py\<close> builds as a dict.\<close>

record cdp_request =
  req_id :: int
  req_method :: string
  expression :: string
  replMode :: bool

text \<open>The answer to the HTTP GET of the debug listing: status, the \<open>Content-Type\<close> header
  if present, and what \<open>.json()\<close> gives (it raises on a body that does not decode).\<close>

record http_response =
  status_code :: int
  content_type :: "string option"
  json_body :: "exn + json"

datatype signal = SIGUSR1 | SIGUSR2

text \<open>The two metadata collectors the orchestrator registers.\<close>

datatype collector = GolangPerfMetadata | NodePerfMetadata

datatype log_level = Debug | Info | Warning | Critical

text \<open>
  What the program does to the outside world, in the order it does it. A log event keeps
  the message template and the values interpolated into it.
\<close>

datatype event =
    HttpGet string
  | Sleep nat
  | Connect "json option"
  | WsSend nat cdp_request
  | OsKill int signal
  | EnterNs "string list" int
  | Copytree string string
  | AddPermission string
  | Remove string
  | Log log_level string "string list"
  | StartProcess "string list" nat
  | Kill nat
  | Terminate nat
  | Wait nat
  | SendSignal nat signal
  | WaitForFile string nat
  | RunProcess "string list"
  | Unlink string

text \<open>One sampling controller object (\<open>PerfProcess\<close>); the attributes are the source's
  without their leading underscore.\<close>

record PerfProcess =
  frequency :: int
  output_path :: string
  perf_type :: string
  inject_jit :: bool
  extra_args :: "string list"
  process :: "Popen option"

text \<open>
  The store. Controller objects live in \<open>heap\<close> and are referred to by their index, because the
  orchestrator reaches the same controller through its list and through a named attribute.
  \<open>running\<close> holds the handles of the subprocesses that were launched and not yet killed or
  terminated, \<open>fs\<close> the paths that exist, the two caches are those of the \<open>lru_cache\<close>
  decorators, and \<open>node_processes\<close> is the orchestrator's mutable list of attached processes.
\<close>

record world =
  heap :: "PerfProcess list"
  trace :: "event list"
  running :: "nat list"
  next_popen :: nat
  fs :: "string set"
  dso_git_rev_cache :: "string option"
  dest_cache :: "(bool \<times> string) \<Rightarrow> string option"
  node_processes :: "Process list"

text \<open>
  What the libraries and the operating system answer. The HTTP answer may depend on
  everything done so far (the trace); the other answers are fixed for one run.
  Functions of this repository that are not in the source tree (\<open>get_exe_version\<close>,
  \<open>resource_path\<close>, \<open>add_permission_dir\<close>, \<open>pgrep_exe\<close>, \<open>start_process\<close>, \<open>run_process\<close>,
  \<open>wait_event\<close>, \<open>wait_for_file_by_prefix\<close>, \<open>perf_path\<close>, \<open>merge_global_perfs\<close>,
  \<open>is_process_basename_matching\<close>, \<open>ApplicationMetadata.get_metadata\<close>) and the constant
  \<open>TEMPORARY_STORAGE_PATH\<close> are parameters here as well.
\<close>

record env =
  http_get :: "event list \<Rightarrow> exn + http_response"
  create_connection :: "json option \<Rightarrow> exn + nat"
  ws_recv :: "nat \<Rightarrow> cdp_request \<Rightarrow> exn + json option"
  is_musl :: "Process \<Rightarrow> exn + bool"
  get_exe_version :: "Process \<Rightarrow> exn + string"
  is_process_running :: "Process \<Rightarrow> bool"
  get_proc_root_path :: "Process \<Rightarrow> string"
  resolve_proc_root_links :: "string \<Rightarrow> string \<Rightarrow> exn + string"
  resource_path :: "string \<Rightarrow> exn + string"
  read_text :: "string \<Rightarrow> exn + string"
  TEMPORARY_STORAGE_PATH :: string
  copytree :: "string \<Rightarrow> string \<Rightarrow> exn option"
  add_permission_dir :: "string \<Rightarrow> exn option"
  get_process_nspid :: "int \<Rightarrow> exn + int"
  os_readlink :: "string \<Rightarrow> exn + string"
  os_kill :: "int \<Rightarrow> signal \<Rightarrow> exn option"
  ns_enter :: "string list \<Rightarrow> int \<Rightarrow> exn option"
  os_remove :: "string \<Rightarrow> exn option"
  pgrep_exe :: "string \<Rightarrow> exn + Process list"
  perf_path :: string
  start_process :: "string list \<Rightarrow> exn + (string option \<times> string option)"
  wait_event :: "nat \<Rightarrow> string \<Rightarrow> exn option"
  wait_for_file_by_prefix :: "string \<Rightarrow> nat \<Rightarrow> exn + string"
  run_process :: "string list \<Rightarrow> exn + string"
  unlink :: "string \<Rightarrow> exn option"
  stop_already_set :: bool
  stop_set_during_wait :: "int \<Rightarrow> bool"
  merge_global_perfs ::
    "string option \<Rightarrow> string option \<Rightarrow> exn + (int \<times> (string \<times> nat) list) list"
  psutil_Process :: "int \<Rightarrow> exn + Process"
  read_elf_symbol :: "string \<Rightarrow> string \<Rightarrow> nat \<Rightarrow> exn + string option"
  struct_unpack_QQ :: "string \<Rightarrow> exn + (nat \<times> nat)"
  read_elf_va :: "string \<Rightarrow> nat \<Rightarrow> nat \<Rightarrow> exn + string option"
  bytes_decode :: "string \<Rightarrow> exn + string"
  is_process_basename_matching :: "Process \<Rightarrow> string \<Rightarrow> exn + bool"
  collector_get_metadata :: "collector \<Rightarrow> Process \<Rightarrow> exn + (string \<times> string) list option"

subsection \<open>Computations that may raise and that change the store\<close>

type_synonym 'a M = "world \<Rightarrow> (exn + 'a) \<times> world"

definition returnE :: "'a \<Rightarrow> 'a M" where
  "returnE x = (\<lambda>w. (Inr x, w))"

definition raiseE :: "exn \<Rightarrow> 'a M" where
  "raiseE e = (\<lambda>w. (Inl e, w))"

definition bindE :: "'a M \<Rightarrow> ('a \<Rightarrow> 'b M) \<Rightarrow> 'b M" where
  "bindE m f = (\<lambda>w. case m w of (Inl e, w') \<Rightarrow> (Inl e, w') | (Inr x, w') \<Rightarrow> f x w')"

text \<open>The outcome of a library call that does not touch the store.\<close>

definition liftE :: "exn + 'a \<Rightarrow> 'a M" where
  "liftE r = (\<lambda>w. (r, w))"

text \<open>A library call that returns nothing: it raises or it does not.\<close>

definition checkE :: "exn option \<Rightarrow> unit M" where
  "checkE r = (\<lambda>w. (case r of None \<Rightarrow> Inr () | Some e \<Rightarrow> Inl e, w))"

definition emit :: "event \<Rightarrow> unit M" where
  "emit ev = (\<lambda>w. (Inr (), w\<lparr>trace := trace w @ [ev]\<rparr>))"

text \<open>\<open>try: m except <all modelled exceptions> as e: h e\<close>.\<close>

definition catchE :: "'a M \<Rightarrow> (exn \<Rightarrow> 'a M) \<Rightarrow> 'a M" where
  "catchE m h = (\<lambda>w. case m w of (Inl e, w') \<Rightarrow> h e w' | (Inr x, w') \<Rightarrow> (Inr x, w'))"

text \<open>\<open>try: m finally: c\<close>: the clean-up runs on both paths, and an exception it raises
  replaces the one in flight.\<close>

definition finallyE :: "'a M \<Rightarrow> unit M \<Rightarrow> 'a M" where
  "finallyE m c = (\<lambda>w. case m w of (r, w') \<Rightarrow>
     (case c w' of (Inl e, w'') \<Rightarrow> (Inl e, w'') | (Inr _, w'') \<Rightarrow> (r, w'')))"

section \<open>The attach protocol (node.py)\<close>

subsection \<open>Discovery of the debug endpoint\<close>

definition debugger_list_url :: string where
  "debugger_list_url = ''http://127.0.0.1:'' @ str_int 9229 @ ''/json/list''"

text \<open>The test on the decoded listing: a non-empty list whose first element is a dict with
  the key \<open>webSocketDebuggerUrl\<close>.\<close>

fun listing_url :: "json \<Rightarrow> json option" where
  "listing_url (JArr (JObj kvs # rest)) = map_of kvs ''webSocketDebuggerUrl''"
| "listing_url _ = None"

text \<open>The body of \<open>_get_debugger_url\<close>, one attempt.\<close>

definition get_debugger_url_once :: "env \<Rightarrow> json M" where
  "get_debugger_url_once E =
     bindE (emit (HttpGet debugger_list_url)) (\<lambda>_.
     bindE (\<lambda>w. (http_get E (trace w), w)) (\<lambda>resp.
       if status_code resp \<noteq> 200
          \<or> \<not> str_contains ''application/json''
                (case content_type resp of None \<Rightarrow> '''' | Some ct \<Rightarrow> ct)
       then raiseE NodeDebuggerUrlNotFound
       else bindE (liftE (json_body resp)) (\<lambda>response_json.
         case listing_url response_json of
           None \<Rightarrow> raiseE NodeDebuggerUrlNotFound
         | Some url \<Rightarrow> returnE url)))"

text \<open>
  The loop of the \<open>retry\<close> decorator (\<open>retry(exceptions, tries, delay)\<close>, with its defaults
  \<open>backoff = 1\<close>, \<open>jitter = 0\<close>, no \<open>max_delay\<close>): the call is repeated while tries remain;
  an exception of the given class costs one try and is re-raised when none is left,
  otherwise the loop logs, sleeps \<open>delay\<close> seconds and goes on; any other exception
  leaves at once. With no tries at all the loop body never runs and the result is \<open>None\<close>.
\<close>

fun retry_internal :: "'a M \<Rightarrow> (exn \<Rightarrow> bool) \<Rightarrow> nat \<Rightarrow> nat \<Rightarrow> 'a option M" where
  "retry_internal f exceptions 0 delay = returnE None"
| "retry_internal f exceptions (Suc tries) delay =
     (\<lambda>w. case f w of
        (Inr x, w') \<Rightarrow> (Inr (Some x), w')
      | (Inl e, w') \<Rightarrow>
          if exceptions e then
            (if tries = 0 then (Inl e, w')
             else bindE (emit (Log Warning ''%s, retrying in %s seconds...'' [str_nat delay])) (\<lambda>_.
                  bindE (emit (Sleep delay)) (\<lambda>_.
                  retry_internal f exceptions tries delay)) w')
          else (Inl e, w'))"

definition get_debugger_url :: "env \<Rightarrow> json option M" where
  "get_debugger_url E =
     retry_internal (get_debugger_url_once E) (\<lambda>e. e = NodeDebuggerUrlNotFound) 5 1"






subsection \<open>Payload deployment\<close>

definition get_node_major_version :: "env \<Rightarrow> Process \<Rightarrow> string M" where
  "get_node_major_version E p =
     bindE (liftE (get_exe_version E p)) (\<lambda>node_version.
     returnE (takeWhile (\<lambda>c. c \<noteq> CHR ''.'') (drop 1 node_version)))"

text \<open>\<open>_get_dso_git_rev\<close> under \<open>lru_cache(maxsize=1)\<close>: a value that was returned once is
  returned ever after; an exception is not cached.\<close>

definition get_dso_git_rev :: "env \<Rightarrow> string M" where
  "get_dso_git_rev E = (\<lambda>w.
     case dso_git_rev_cache w of
       Some git_rev \<Rightarrow> (Inr git_rev, w)
     | None \<Rightarrow>
        (bindE (liftE (resource_path E (os_path_join ''node'' [''module'', ''glibc'', ''version'']))) (\<lambda>libc_dso_version_file.
         bindE (liftE (resource_path E (os_path_join ''node'' [''module'', ''musl'', ''version'']))) (\<lambda>musl_dso_version_file.
         bindE (liftE (read_text E libc_dso_version_file)) (\<lambda>libc_dso_ver.
         bindE (liftE (read_text E musl_dso_version_file)) (\<lambda>musl_dso_ver.
           if libc_dso_ver \<noteq> musl_dso_ver then raiseE AssertionError
           else (\<lambda>w'. (Inr libc_dso_ver, w'\<lparr>dso_git_rev_cache := Some libc_dso_ver\<rparr>))))))) w)"

text \<open>\<open>_get_dest_inside_container\<close> under \<open>lru_cache()\<close>. The cache is kept unbounded here:
  an evicted entry is recomputed from the cached build identity and gives the same path.\<close>

definition get_dest_inside_container :: "env \<Rightarrow> bool \<Rightarrow> string \<Rightarrow> string M" where
  "get_dest_inside_container E musl node_version = (\<lambda>w.
     case dest_cache w (musl, node_version) of
       Some d \<Rightarrow> (Inr d, w)
     | None \<Rightarrow>
        (let libc = (if musl then ''musl'' else ''glibc'') in
         bindE (get_dso_git_rev E) (\<lambda>git_rev.
           let d = os_path_join (TEMPORARY_STORAGE_PATH E) [''node_module'', git_rev, libc, node_version]
           in (\<lambda>w'. (Inr d, w'\<lparr>dest_cache := (dest_cache w')((musl, node_version) := Some d)\<rparr>)))) w)"

definition copy_module_into_process_ns :: "env \<Rightarrow> Process \<Rightarrow> bool \<Rightarrow> string \<Rightarrow> string M" where
  "copy_module_into_process_ns E proc musl version =
     (let proc_root = get_proc_root_path E proc;
          libc = (if musl then ''musl'' else ''glibc'') in
      bindE (get_dest_inside_container E musl version) (\<lambda>dest_inside_container.
      bindE (liftE (resolve_proc_root_links E proc_root dest_inside_container)) (\<lambda>dest.
      (\<lambda>w. if dest \<in> fs w then (Inr dest_inside_container, w)
        else
         (bindE (get_dso_git_rev E) (\<lambda>git_rev.
          bindE (liftE (resource_path E (os_path_join ''node'' [''module'', libc, git_rev, version]))) (\<lambda>src.
          bindE (emit (Copytree src dest)) (\<lambda>_.
          bindE (checkE (copytree E src dest)) (\<lambda>_.
          bindE (\<lambda>w'. (Inr (), w'\<lparr>fs := insert dest (fs w')\<rparr>)) (\<lambda>_.
          bindE (emit (AddPermission dest)) (\<lambda>_.
          bindE (checkE (add_permission_dir E dest)) (\<lambda>_.
          returnE dest_inside_container)))))))) w))))"

subsection \<open>The debug session\<close>

definition start_debugger :: "env \<Rightarrow> int \<Rightarrow> unit M" where
  "start_debugger E p = bindE (emit (OsKill p SIGUSR1)) (\<lambda>_. checkE (os_kill E p SIGUSR1))"

definition send_socket_request :: "env \<Rightarrow> nat \<Rightarrow> cdp_request \<Rightarrow> unit M" where
  "send_socket_request E sock req =
     bindE (emit (WsSend sock req)) (\<lambda>_.
     bindE (liftE (ws_recv E sock req)) (\<lambda>received.
       case received of
         None \<Rightarrow> raiseE NodeDebuggerUnexpectedResponse
       | Some message \<Rightarrow>
          bindE (liftE (keys message)) (\<lambda>ks.
            if ''result'' \<notin> set ks then raiseE NodeDebuggerUnexpectedResponse
            else
              bindE (liftE (getitem message ''result'')) (\<lambda>r1.
              bindE (liftE (keys r1)) (\<lambda>ks1.
                if ''result'' \<notin> set ks1 then raiseE NodeDebuggerUnexpectedResponse
                else
                  bindE (liftE (getitem r1 ''result'')) (\<lambda>r2.
                  bindE (liftE (keys r2)) (\<lambda>ks2.
                    if ''type'' \<notin> set ks2 then raiseE NodeDebuggerUnexpectedResponse
                    else
                      bindE (liftE (getitem r2 ''type'')) (\<lambda>t.
                        if \<not> str_eq ''boolean'' t then raiseE NodeDebuggerUnexpectedResponse
                        else returnE ()))))))))"

text \<open>\<open>message["result"]["result"]["value"]\<close>, where a missing key becomes
  \<open>NodeDebuggerUnexpectedResponse\<close> and any other exception passes through.\<close>

definition result_value :: "json option \<Rightarrow> exn + json" where
  "result_value received =
     (case received of
        None \<Rightarrow> Inl NodeDebuggerUnexpectedResponse
      | Some message \<Rightarrow>
         (case getitem message ''result'' of
            Inl e \<Rightarrow> Inl (if e = KeyError then NodeDebuggerUnexpectedResponse else e)
          | Inr r1 \<Rightarrow>
             (case getitem r1 ''result'' of
                Inl e \<Rightarrow> Inl (if e = KeyError then NodeDebuggerUnexpectedResponse else e)
              | Inr r2 \<Rightarrow>
                 (case getitem r2 ''value'' of
                    Inl e \<Rightarrow> Inl (if e = KeyError then NodeDebuggerUnexpectedResponse else e)
                  | Inr v \<Rightarrow> Inr v))))"

definition evaluate_request :: "string \<Rightarrow> cdp_request" where
  "evaluate_request command =
     \<lparr>req_id = 1, req_method = ''Runtime.evaluate'', expression = command, replMode = True\<rparr>"

definition execute_js_command :: "env \<Rightarrow> nat \<Rightarrow> string \<Rightarrow> json M" where
  "execute_js_command E sock command =
     bindE (emit (WsSend sock (evaluate_request command))) (\<lambda>_.
     bindE (liftE (ws_recv E sock (evaluate_request command))) (\<lambda>received.
     liftE (result_value received)))"

definition dquote :: string where
  "dquote = [char_of (34::nat)]"

definition dso_state_expression :: "string \<Rightarrow> string \<Rightarrow> string" where
  "dso_state_expression module_path action =
     ''process.mainModule.require('' @ dquote @ os_path_join module_path [''linux-perf.js'']
       @ dquote @ '').'' @ action @ ''()''"

definition change_dso_state :: "env \<Rightarrow> nat \<Rightarrow> string \<Rightarrow> string \<Rightarrow> unit M" where
  "change_dso_state E sock module_path action =
     (if action \<noteq> ''start'' \<and> action \<noteq> ''stop'' then raiseE AssertionError
      else send_socket_request E sock (evaluate_request (dso_state_expression module_path action)))"

definition ns_link_command :: string where
  "ns_link_command =
     ''const fs = process.mainModule.require('' @ dquote @ ''fs'' @ dquote
       @ ''); fs.readlinkSync('' @ dquote @ ''/proc/self/ns/pid'' @ dquote @ '')''"

definition validate_ns_node :: "env \<Rightarrow> nat \<Rightarrow> string \<Rightarrow> unit M" where
  "validate_ns_node E sock expected_ns_link_name =
     bindE (execute_js_command E sock ns_link_command) (\<lambda>actual_ns_link_name.
       if str_eq expected_ns_link_name actual_ns_link_name then returnE ()
       else raiseE AssertionError)"

definition validate_pid :: "env \<Rightarrow> int \<Rightarrow> nat \<Rightarrow> unit M" where
  "validate_pid E expected_pid sock =
     bindE (execute_js_command E sock ''process.pid'') (\<lambda>actual_pid.
       if int_eq expected_pid actual_pid then returnE ()
       else raiseE AssertionError)"

definition create_debugger_socket :: "env \<Rightarrow> int \<Rightarrow> string \<Rightarrow> nat M" where
  "create_debugger_socket E nspid ns_link_name =
     bindE (get_debugger_url E) (\<lambda>debugger_url.
     bindE (emit (Connect debugger_url)) (\<lambda>_.
     bindE (liftE (create_connection E debugger_url)) (\<lambda>sock.
     bindE (validate_ns_node E sock ns_link_name) (\<lambda>_.
     bindE (validate_pid E nspid sock) (\<lambda>_.
     returnE sock)))))"

definition generate_perf_map :: "env \<Rightarrow> string \<Rightarrow> int \<Rightarrow> string \<Rightarrow> unit M" where
  "generate_perf_map E module_path nspid ns_link_name =
     bindE (create_debugger_socket E nspid ns_link_name) (\<lambda>sock.
     change_dso_state E sock module_path ''start'')"

definition perf_map_path :: "int \<Rightarrow> string" where
  "perf_map_path nspid = os_path_join ''/tmp'' [''perf-'' @ str_int nspid @ ''.map'']"

definition clean_up :: "env \<Rightarrow> string \<Rightarrow> int \<Rightarrow> string \<Rightarrow> unit M" where
  "clean_up E module_path nspid ns_link_name =
     bindE (create_debugger_socket E nspid ns_link_name) (\<lambda>sock.
     finallyE (change_dso_state E sock module_path ''stop'')
       (bindE (emit (Remove (perf_map_path nspid))) (\<lambda>_.
        checkE (os_remove E (perf_map_path nspid)))))"

subsection \<open>Attaching to and detaching from a list of processes\<close>

definition get_node_processes :: "env \<Rightarrow> Process list M" where
  "get_node_processes E = liftE (pgrep_exe E ''.*node[^/]*$'')"

text \<open>\<open>run_in_ns\<close> with \<open>passthrough_exception=True\<close>: the callback runs inside the
  namespaces of the target and what it raises is raised to the caller.\<close>

definition run_in_ns :: "env \<Rightarrow> string list \<Rightarrow> 'a M \<Rightarrow> int \<Rightarrow> 'a M" where
  "run_in_ns E nstypes callback target_pid =
     bindE (emit (EnterNs nstypes target_pid)) (\<lambda>_.
     bindE (checkE (ns_enter E nstypes target_pid)) (\<lambda>_.
     callback))"

definition ns_pid_link :: "int \<Rightarrow> string" where
  "ns_pid_link p = ''/proc/'' @ str_int p @ ''/ns/pid''"

text \<open>The body of the \<open>try\<close> block of \<open>generate_map_for_node_processes\<close>: the attach of one
  process.\<close>

definition attach_process :: "env \<Rightarrow> Process \<Rightarrow> unit M" where
  "attach_process E proc =
     bindE (liftE (is_musl E proc)) (\<lambda>musl.
     bindE (get_node_major_version E proc) (\<lambda>node_major_version.
     bindE (copy_module_into_process_ns E proc musl node_major_version) (\<lambda>dest.
     bindE (liftE (get_process_nspid E (pid proc))) (\<lambda>nspid.
     bindE (liftE (os_readlink E (ns_pid_link (pid proc)))) (\<lambda>ns_link_name.
     bindE (start_debugger E (pid proc)) (\<lambda>_.
     run_in_ns E [''pid'', ''mnt'', ''net'']
       (generate_perf_map E dest nspid ns_link_name) (pid proc)))))))"

definition attach_warning :: "Process \<Rightarrow> event" where
  "attach_warning proc =
     Log Warning ''Could not create debug symbols for pid {process.pid}. Reason: {e}''
       [str_int (pid proc)]"

fun generate_map_for_node_processes :: "env \<Rightarrow> Process list \<Rightarrow> unit M" where
  "generate_map_for_node_processes E [] = returnE ()"
| "generate_map_for_node_processes E (proc # processes) =
     bindE (catchE (attach_process E proc) (\<lambda>e. emit (attach_warning proc))) (\<lambda>_.
     generate_map_for_node_processes E processes)"

text \<open>The body of the \<open>try\<close> block of \<open>clean_up_node_maps\<close>: the detach of one process.\<close>

definition detach_process :: "env \<Rightarrow> Process \<Rightarrow> unit M" where
  "detach_process E proc =
     (if \<not> is_process_running E proc then returnE ()
      else
       bindE (get_node_major_version E proc) (\<lambda>node_major_version.
       bindE (liftE (get_process_nspid E (pid proc))) (\<lambda>nspid.
       bindE (liftE (os_readlink E (ns_pid_link (pid proc)))) (\<lambda>ns_link_name.
       bindE (liftE (is_musl E proc)) (\<lambda>musl.
       bindE (get_dest_inside_container E musl node_major_version) (\<lambda>dest.
       run_in_ns E [''pid'', ''mnt'', ''net'']
         (clean_up E dest nspid ns_link_name) (pid proc)))))))"

definition detach_warning :: "Process \<Rightarrow> event" where
  "detach_warning proc =
     Log Warning ''Could not clean up debug symbols for pid {process.pid}. Reason: {e}''
       [str_int (pid proc)]"

fun clean_up_node_maps :: "env \<Rightarrow> Process list \<Rightarrow> unit M" where
  "clean_up_node_maps E [] = returnE ()"
| "clean_up_node_maps E (proc # processes) =
     bindE (catchE (detach_process E proc) (\<lambda>e. emit (detach_warning proc))) (\<lambda>_.
     clean_up_node_maps E processes)"


section \<open>The sampling controller (perf.py, \<open>PerfProcess\<close>)\<close>

definition dump_timeout_s :: nat where
  "dump_timeout_s = 5"

definition poll_timeout_s :: nat where
  "poll_timeout_s = 5"

definition mmap_sizes :: "string \<Rightarrow> exn + int" where
  "mmap_sizes t =
     (if t = ''fp'' then Inr 129 else if t = ''dwarf'' then Inr 257 else Inl KeyError)"

definition PerfProcess_init ::
  "int \<Rightarrow> string \<Rightarrow> bool \<Rightarrow> bool \<Rightarrow> string list \<Rightarrow> PerfProcess" where
  "PerfProcess_init freq path is_dwarf inject args =
     \<lparr>frequency = freq,
      output_path = path,
      perf_type = (if is_dwarf then ''dwarf'' else ''fp''),
      inject_jit = inject,
      extra_args = args @ (if inject then [''-k'', ''1''] else []),
      process = None\<rparr>"

definition get_perf_cmd :: "env \<Rightarrow> PerfProcess \<Rightarrow> exn + string list" where
  "get_perf_cmd E obj =
     (case mmap_sizes (perf_type obj) of
        Inl e \<Rightarrow> Inl e
      | Inr pages \<Rightarrow>
          Inr ([perf_path E, ''record'', ''-F'', str_int (frequency obj), ''-a'', ''-g'', ''-o'',
                output_path obj, ''--switch-output=signal'', ''-m'', str_int pages]
               @ extra_args obj))"

text \<open>Reading an object through its reference. A reference the program holds always
  points into the heap; the other branch is there to keep the function total.\<close>

definition deref :: "nat \<Rightarrow> PerfProcess M" where
  "deref r = (\<lambda>w. if r < length (heap w) then (Inr (heap w ! r), w) else (Inl (OtherError 0), w))"

text \<open>\<open>self._process = v\<close>.\<close>

definition set_process :: "nat \<Rightarrow> Popen option \<Rightarrow> unit M" where
  "set_process r v = (\<lambda>w. (Inr (), w\<lparr>heap := (heap w)[r := (heap w ! r)\<lparr>process := v\<rparr>]\<rparr>))"

text \<open>The subprocess that \<open>start_process\<close> has launched: it gets a fresh handle and runs.\<close>

definition launch :: "string list \<Rightarrow> string option \<times> string option \<Rightarrow> Popen M" where
  "launch cmd pipes = (\<lambda>w.
     (Inr \<lparr>popen_id = next_popen w, stdout = fst pipes, stderr = snd pipes\<rparr>,
      w\<lparr>next_popen := Suc (next_popen w),
        running := running w @ [next_popen w],
        trace := trace w @ [StartProcess cmd (next_popen w)]\<rparr>))"

text \<open>The subprocess with this handle runs no more.\<close>

definition gone :: "nat \<Rightarrow> unit M" where
  "gone h = (\<lambda>w. (Inr (), w\<lparr>running := removeAll h (running w)\<rparr>))"

definition start_failure :: "string \<Rightarrow> string \<Rightarrow> event" where
  "start_failure out err =
     Log Critical ''perf failed to start. stdout {process.stdout.read()!r} stderr {process.stderr.read()!r}''
       [out, err]"

definition PerfProcess_start :: "env \<Rightarrow> nat \<Rightarrow> unit M" where
  "PerfProcess_start E self =
     bindE (deref self) (\<lambda>obj.
     bindE (emit (Log Info ''Starting perf ({self._type} mode)'' [perf_type obj])) (\<lambda>_.
     bindE (liftE (get_perf_cmd E obj)) (\<lambda>cmd.
     bindE (liftE (start_process E cmd)) (\<lambda>pipes.
     bindE (launch cmd pipes) (\<lambda>proc.
       case wait_event E poll_timeout_s (output_path obj) of
         Some e \<Rightarrow>
           if e = TimeoutError then
             bindE (emit (Kill (popen_id proc))) (\<lambda>_.
             bindE (gone (popen_id proc)) (\<lambda>_.
               case (stdout proc, stderr proc) of
                 (Some out, Some err) \<Rightarrow>
                   bindE (emit (start_failure out err)) (\<lambda>_. raiseE TimeoutError)
               | _ \<Rightarrow> raiseE AssertionError))
           else raiseE e
       | None \<Rightarrow>
           bindE (set_process self (Some proc)) (\<lambda>_.
           emit (Log Info ''Started perf ({self._type} mode)'' [perf_type obj])))))))"

definition PerfProcess_stop :: "env \<Rightarrow> nat \<Rightarrow> unit M" where
  "PerfProcess_stop E self =
     bindE (deref self) (\<lambda>obj.
       case process obj of
         None \<Rightarrow> returnE ()
       | Some proc \<Rightarrow>
           bindE (emit (Terminate (popen_id proc))) (\<lambda>_.
           bindE (emit (Wait (popen_id proc))) (\<lambda>_.
           bindE (gone (popen_id proc)) (\<lambda>_.
           bindE (set_process self None) (\<lambda>_.
           emit (Log Info ''Stopped perf ({self._type} mode)'' [perf_type obj]))))))"

definition switch_output :: "env \<Rightarrow> nat \<Rightarrow> unit M" where
  "switch_output E self =
     bindE (deref self) (\<lambda>obj.
       case process obj of
         None \<Rightarrow> raiseE AssertionError
       | Some proc \<Rightarrow> emit (SendSignal (popen_id proc) SIGUSR2))"

definition dump_failure :: "string \<Rightarrow> string \<Rightarrow> event" where
  "dump_failure out err =
     Log Critical ''perf failed to dump output. stdout {self._process.stdout.read()!r} stderr {self._process.stderr.read()!r}''
       [out, err]"

definition inject_cmd :: "env \<Rightarrow> string \<Rightarrow> string \<Rightarrow> string list" where
  "inject_cmd E inject_data perf_data =
     [perf_path E, ''inject'', ''--jit'', ''-o'', inject_data, ''-i'', perf_data]"

definition script_cmd :: "env \<Rightarrow> string \<Rightarrow> string list" where
  "script_cmd E perf_data = [perf_path E, ''script'', ''-F'', ''+pid'', ''-i'', perf_data]"

text \<open>The body of \<open>wait_and_script\<close>, on the attributes of the controller.\<close>

definition wait_and_script_of :: "env \<Rightarrow> PerfProcess \<Rightarrow> string M" where
  "wait_and_script_of E obj =
    (bindE
       (finallyE
          (catchE
             (bindE (emit (WaitForFile (output_path obj @ ''.'') dump_timeout_s)) (\<lambda>_.
              liftE (wait_for_file_by_prefix E (output_path obj @ ''.'') dump_timeout_s)))
             (\<lambda>e. case process obj of
                None \<Rightarrow> raiseE AssertionError
              | Some proc \<Rightarrow>
                 (case (stdout proc, stderr proc) of
                    (Some out, Some err) \<Rightarrow> bindE (emit (dump_failure out err)) (\<lambda>_. raiseE e)
                  | _ \<Rightarrow> raiseE AssertionError)))
          (case process obj of
             None \<Rightarrow> raiseE AssertionError
           | Some proc \<Rightarrow>
              (case stderr proc of
                 None \<Rightarrow> raiseE AssertionError
               | Some err \<Rightarrow> emit (Log Debug ''perf stderr: {self._process.stderr.read1(4096)}'' []))))
       (\<lambda>perf_data0.
     bindE
       (if inject_jit obj then
          (let inject_data = perf_data0 @ ''.inject'' in
           bindE (emit (RunProcess (inject_cmd E inject_data perf_data0))) (\<lambda>_.
           bindE (liftE (run_process E (inject_cmd E inject_data perf_data0))) (\<lambda>_.
           bindE (emit (Unlink perf_data0)) (\<lambda>_.
           bindE (checkE (unlink E perf_data0)) (\<lambda>_.
           returnE inject_data)))))
        else returnE perf_data0)
       (\<lambda>perf_data.
     bindE (emit (RunProcess (script_cmd E perf_data))) (\<lambda>_.
     bindE (liftE (run_process E (script_cmd E perf_data))) (\<lambda>script_out.
     bindE (emit (Unlink perf_data)) (\<lambda>_.
     bindE (checkE (unlink E perf_data)) (\<lambda>_.
     liftE (bytes_decode E script_out))))))))"

definition wait_and_script :: "env \<Rightarrow> nat \<Rightarrow> string M" where
  "wait_and_script E self = bindE (deref self) (wait_and_script_of E)"

section \<open>The orchestrator (perf.py, \<open>SystemProfiler\<close>)\<close>

record SystemProfiler =
  sp_frequency :: int
  duration :: int
  storage_dir :: string
  perfs :: "nat list"
  metadata_collectors :: "collector list"
  perf_fp :: "nat option"
  perf_dwarf :: "nat option"
  perf_node_attach :: bool

record ProfileData =
  stacks :: "(string \<times> nat) list"
  appid :: "string option"
  app_metadata :: "(string \<times> string) list option"

text \<open>Creating a controller object: it is put into the heap and its reference returned.\<close>

definition new_PerfProcess ::
  "int \<Rightarrow> string \<Rightarrow> bool \<Rightarrow> bool \<Rightarrow> string list \<Rightarrow> nat M" where
  "new_PerfProcess freq path is_dwarf inject args = (\<lambda>w.
     (Inr (length (heap w)), w\<lparr>heap := heap w @ [PerfProcess_init freq path is_dwarf inject args]\<rparr>))"

text \<open>\<open>SystemProfiler.__init__\<close>. The base class constructor, which is not in the source
  tree, is taken to store frequency, duration and storage directory as given.\<close>

definition SystemProfiler_init ::
  "int \<Rightarrow> int \<Rightarrow> string \<Rightarrow> bool \<Rightarrow> string \<Rightarrow> int \<Rightarrow> bool \<Rightarrow> bool \<Rightarrow> SystemProfiler M" where
  "SystemProfiler_init freq dur dir profile_spawned_processes perf_mode perf_dwarf_stack_size
       perf_inject node_attach =
     bindE (\<lambda>w. (Inr (), w\<lparr>node_processes := []\<rparr>)) (\<lambda>_.
     bindE
       (if perf_mode = ''fp'' \<or> perf_mode = ''smart'' then
          bindE (new_PerfProcess freq (os_path_join dir [''perf.fp'']) False perf_inject [])
            (\<lambda>r. returnE (Some r))
        else returnE None) (\<lambda>fp.
     bindE
       (if perf_mode = ''dwarf'' \<or> perf_mode = ''smart'' then
          bindE (new_PerfProcess freq (os_path_join dir [''perf.dwarf'']) True False
                   [''--call-graph'', ''dwarf,'' @ str_int perf_dwarf_stack_size])
            (\<lambda>r. returnE (Some r))
        else returnE None) (\<lambda>dw.
       if fp = None \<and> dw = None then raiseE AssertionError
       else returnE
         \<lparr>sp_frequency = freq, duration = dur, storage_dir = dir,
          perfs = (case fp of None \<Rightarrow> [] | Some r \<Rightarrow> [r]) @ (case dw of None \<Rightarrow> [] | Some r \<Rightarrow> [r]),
          metadata_collectors = [GolangPerfMetadata, NodePerfMetadata],
          perf_fp = fp, perf_dwarf = dw, perf_node_attach = node_attach\<rparr>)))"

text \<open>\<open>for x in xs: body(x)\<close>: the first exception ends the loop.\<close>

fun for_each :: "('a \<Rightarrow> unit M) \<Rightarrow> 'a list \<Rightarrow> unit M" where
  "for_each body [] = returnE ()"
| "for_each body (x # xs) = bindE (body x) (\<lambda>_. for_each body xs)"

definition SystemProfiler_start :: "env \<Rightarrow> SystemProfiler \<Rightarrow> unit M" where
  "SystemProfiler_start E self =
     bindE
       (if perf_node_attach self then
          bindE (get_node_processes E) (\<lambda>found.
          bindE (\<lambda>w. (Inr (), w\<lparr>node_processes := found\<rparr>)) (\<lambda>_.
          generate_map_for_node_processes E found))
        else returnE ()) (\<lambda>_.
     for_each (PerfProcess_start E) (perfs self))"

definition SystemProfiler_stop :: "env \<Rightarrow> SystemProfiler \<Rightarrow> unit M" where
  "SystemProfiler_stop E self =
     bindE
       (if perf_node_attach self then
          bindE (\<lambda>w. (Inr (), w\<lparr>node_processes := filter (is_process_running E) (node_processes w)\<rparr>)) (\<lambda>_.
          (\<lambda>w. clean_up_node_maps E (node_processes w) w))
        else returnE ()) (\<lambda>_.
     for_each (PerfProcess_stop E) (rev (perfs self)))"

subsection \<open>Metadata of a sampled process\<close>

definition exe_path :: "int \<Rightarrow> string" where
  "exe_path p = ''/proc/'' @ str_int p @ ''/exe''"

text \<open>\<open>except FileNotFoundError: raise NoSuchProcess(process.pid)\<close>.\<close>

definition not_found_is_no_process :: "exn + 'a \<Rightarrow> exn + 'a" where
  "not_found_is_no_process r =
     (case r of Inl e \<Rightarrow> Inl (if e = FileNotFoundError then NoSuchProcess else e) | Inr x \<Rightarrow> Inr x)"

text \<open>\<open>GolangPerfMetadata._get_golang_version\<close>. Its \<open>lru_cache\<close> is left out: the answers of
  the environment are fixed for one run, so a cached value is the recomputed one.\<close>

definition get_golang_version :: "env \<Rightarrow> Process \<Rightarrow> exn + string option" where
  "get_golang_version E proc =
     (let elf_path = exe_path (pid proc) in
      case not_found_is_no_process (read_elf_symbol E elf_path ''runtime.buildVersion'' 16) of
        Inl e \<Rightarrow> Inl e
      | Inr None \<Rightarrow> Inr None
      | Inr (Some symbol_data) \<Rightarrow>
         (case struct_unpack_QQ E symbol_data of
            Inl e \<Rightarrow> Inl e
          | Inr (addr, len) \<Rightarrow>
             (case not_found_is_no_process (read_elf_va E elf_path addr len) of
                Inl e \<Rightarrow> Inl e
              | Inr None \<Rightarrow> Inr None
              | Inr (Some golang_version_bytes) \<Rightarrow>
                 (case bytes_decode E golang_version_bytes of
                    Inl e \<Rightarrow> Inl e
                  | Inr s \<Rightarrow> Inr (Some s)))))"

fun relevant_for_process :: "env \<Rightarrow> collector \<Rightarrow> Process \<Rightarrow> exn + bool" where
  "relevant_for_process E GolangPerfMetadata proc =
     (case get_golang_version E proc of Inl e \<Rightarrow> Inl e | Inr version \<Rightarrow> Inr (version \<noteq> None))"
| "relevant_for_process E NodePerfMetadata proc =
     is_process_basename_matching E proc ''^node$''"

text \<open>The loop over the collectors in \<open>_get_metadata\<close>: the first relevant one answers.\<close>

fun first_relevant ::
  "env \<Rightarrow> collector list \<Rightarrow> Process \<Rightarrow> exn + (string \<times> string) list option" where
  "first_relevant E [] proc = Inr None"
| "first_relevant E (c # cs) proc =
     (case relevant_for_process E c proc of
        Inl e \<Rightarrow> Inl e
      | Inr relevant \<Rightarrow>
          if relevant then collector_get_metadata E c proc else first_relevant E cs proc)"

text \<open>The body of the \<open>try\<close> block of \<open>_get_metadata\<close>.\<close>

definition lookup_metadata ::
  "env \<Rightarrow> SystemProfiler \<Rightarrow> int \<Rightarrow> exn + (string \<times> string) list option" where
  "lookup_metadata E self p =
     (case psutil_Process E p of
        Inl e \<Rightarrow> Inl e
      | Inr proc \<Rightarrow> first_relevant E (metadata_collectors self) proc)"

definition get_metadata ::
  "env \<Rightarrow> SystemProfiler \<Rightarrow> int \<Rightarrow> exn + (string \<times> string) list option" where
  "get_metadata E self p =
     (if p = 0 \<or> p = - 1 then Inr None
      else
        (case lookup_metadata E self p of
           Inl e \<Rightarrow> if e = NoSuchProcess then Inr None else Inl e
         | Inr m \<Rightarrow> Inr m))"

subsection \<open>One sampling round\<close>

text \<open>\<open>Event.wait(timeout)\<close> is true when the flag is set on entry or becomes set while
  waiting, and false when the time runs out.\<close>

definition Event_wait :: "env \<Rightarrow> int \<Rightarrow> bool" where
  "Event_wait E timeout = (stop_already_set E \<or> stop_set_during_wait E timeout)"

text \<open>The dict comprehension that ends \<open>snapshot\<close>, over the items of the merged dict.\<close>

fun round_result ::
  "env \<Rightarrow> SystemProfiler \<Rightarrow> (int \<times> (string \<times> nat) list) list \<Rightarrow> exn + (int \<times> ProfileData) list" where
  "round_result E self [] = Inr []"
| "round_result E self ((k, v) # items) =
     (case get_metadata E self k of
        Inl e \<Rightarrow> Inl e
      | Inr m \<Rightarrow>
         (case round_result E self items of
            Inl e \<Rightarrow> Inl e
          | Inr rest \<Rightarrow> Inr ((k, \<lparr>stacks = v, appid = None, app_metadata = m\<rparr>) # rest)))"

definition collect_if_present :: "env \<Rightarrow> nat option \<Rightarrow> string option M" where
  "collect_if_present E perf =
     (case perf of
        None \<Rightarrow> returnE None
      | Some r \<Rightarrow> bindE (wait_and_script E r) (\<lambda>s. returnE (Some s)))"

definition refresh_node_processes :: "env \<Rightarrow> unit M" where
  "refresh_node_processes E =
     bindE (\<lambda>w. (Inr (), w\<lparr>node_processes := filter (is_process_running E) (node_processes w)\<rparr>)) (\<lambda>_.
     bindE (get_node_processes E) (\<lambda>found.
     bindE (\<lambda>w. (Inr (filter (\<lambda>p. p \<notin> set (node_processes w)) found), w)) (\<lambda>new_processes.
     bindE (generate_map_for_node_processes E new_processes) (\<lambda>_.
     (\<lambda>w. (Inr (), w\<lparr>node_processes := node_processes w @ new_processes\<rparr>))))))"

text \<open>The statements of \<open>snapshot\<close> that precede the wait for the end of the round.\<close>

definition before_wait :: "env \<Rightarrow> SystemProfiler \<Rightarrow> unit M" where
  "before_wait E self = (if perf_node_attach self then refresh_node_processes E else returnE ())"

definition snapshot :: "env \<Rightarrow> SystemProfiler \<Rightarrow> (int \<times> ProfileData) list M" where
  "snapshot E self =
     bindE (before_wait E self) (\<lambda>_.
       if Event_wait E (duration self) then raiseE StopEventSetException
       else
         bindE (for_each (switch_output E) (perfs self)) (\<lambda>_.
         bindE (collect_if_present E (perf_fp self)) (\<lambda>fp_script.
         bindE (collect_if_present E (perf_dwarf self)) (\<lambda>dwarf_script.
         bindE (liftE (merge_global_perfs E fp_script dwarf_script)) (\<lambda>merged.
         liftE (round_result E self merged))))))"

section \<open>Notions used to state the properties\<close>




text \<open>The store after the attach (detach) of one process inside the loop: as the attach
  left it, with the warning logged when the attach raised.\<close>

definition after_attach :: "env \<Rightarrow> Process \<Rightarrow> world \<Rightarrow> world" where
  "after_attach E proc w =
     (case attach_process E proc w of
        (Inl e, w') \<Rightarrow> w'\<lparr>trace := trace w' @ [attach_warning proc]\<rparr>
      | (Inr u, w') \<Rightarrow> w')"

definition after_detach :: "env \<Rightarrow> Process \<Rightarrow> world \<Rightarrow> world" where
  "after_detach E proc w =
     (case detach_process E proc w of
        (Inl e, w') \<Rightarrow> w'\<lparr>trace := trace w' @ [detach_warning proc]\<rparr>
      | (Inr u, w') \<Rightarrow> w')"

text \<open>The statements of \<open>snapshot\<close> that follow the rotation.\<close>

definition collect_and_merge :: "env \<Rightarrow> SystemProfiler \<Rightarrow> (int \<times> ProfileData) list M" where
  "collect_and_merge E self =
     bindE (collect_if_present E (perf_fp self)) (\<lambda>fp_script.
     bindE (collect_if_present E (perf_dwarf self)) (\<lambda>dwarf_script.
     bindE (liftE (merge_global_perfs E fp_script dwarf_script)) (\<lambda>merged.
     liftE (round_result E self merged))))"

text \<open>The rotate signal a controller would receive, if it has a subprocess.\<close>

definition rotation_of :: "world \<Rightarrow> nat \<Rightarrow> event option" where
  "rotation_of w r =
     (if r < length (heap w) then
        (case process (heap w ! r) of
           None \<Rightarrow> None
         | Some proc \<Rightarrow> Some (SendSignal (popen_id proc) SIGUSR2))
      else None)"

text \<open>Events by the step that produces them: the rotate signal; what the collect step
  does; what the attach protocol does.\<close>

fun rotate_event :: "event \<Rightarrow> bool" where
  "rotate_event (SendSignal h s) = (s = SIGUSR2)"
| "rotate_event _ = False"

fun collect_event :: "event \<Rightarrow> bool" where
  "collect_event (WaitForFile prefix timeout) = True"
| "collect_event (RunProcess cmd) = True"
| "collect_event (Unlink path) = True"
| "collect_event (Log level msg args) = (level = Critical \<or> level = Debug)"
| "collect_event _ = False"

fun attach_event :: "event \<Rightarrow> bool" where
  "attach_event (HttpGet url) = True"
| "attach_event (Sleep n) = True"
| "attach_event (Connect url) = True"
| "attach_event (WsSend sock req) = True"
| "attach_event (OsKill p s) = True"
| "attach_event (EnterNs kinds p) = True"
| "attach_event (Copytree src dest) = True"
| "attach_event (AddPermission dest) = True"
| "attach_event (Remove path) = True"
| "attach_event (Log level msg args) = (level = Warning)"
| "attach_event _ = False"

text \<open>A computation that leaves the controller objects and the subprocesses alone and
  adds to the trace only events of the given kind.\<close>

definition emits :: "(event \<Rightarrow> bool) \<Rightarrow> 'a M \<Rightarrow> bool" where
  "emits P m =
     (\<forall>w. heap (snd (m w)) = heap w \<and> running (snd (m w)) = running w
          \<and> (\<exists>evs. trace (snd (m w)) = trace w @ evs \<and> list_all P evs))"

section \<open>An example environment\<close>

text \<open>
  A host with one node process, pid 4242, that is pid 1 of its own pid namespace, whose
  debug endpoint answers as the runtime does, and on which every library call succeeds.
\<close>

definition evaluate_reply :: "string \<Rightarrow> json \<Rightarrow> json option" where
  "evaluate_reply ty v =
     Some (JObj [(''id'', JInt 1),
                 (''result'', JObj [(''result'', JObj [(''type'', JStr ty), (''value'', v)])])])"

definition example_listing :: http_response where
  "example_listing =
     \<lparr>status_code = 200,
      content_type = Some ''application/json; charset=UTF-8'',
      json_body = Inr (JArr [JObj [(''id'', JStr ''0f2c''),
                                    (''webSocketDebuggerUrl'', JStr ''ws://127.0.0.1:9229/0f2c'')]])\<rparr>"

definition example_node :: Process where
  "example_node = \<lparr>pid = 4242, create_time = 100\<rparr>"

definition example_env :: env where
  "example_env =
     \<lparr>http_get = (\<lambda>t. Inr example_listing),
      create_connection = (\<lambda>url. Inr 7),
      ws_recv = (\<lambda>sock req. Inr
         (if expression req = ns_link_command then evaluate_reply ''string'' (JStr ''pid:[4026532281]'')
          else if expression req = ''process.pid'' then evaluate_reply ''number'' (JInt 1)
          else evaluate_reply ''boolean'' (JBool True))),
      is_musl = (\<lambda>p. Inr False),
      get_exe_version = (\<lambda>p. Inr ''v16.3.2''),
      is_process_running = (\<lambda>p. True),
      get_proc_root_path = (\<lambda>p. ''/proc/'' @ str_int (pid p) @ ''/root''),
      resolve_proc_root_links = (\<lambda>root path. Inr (root @ path)),
      resource_path = (\<lambda>rel. Inr (''/opt/gprofiler/resources/'' @ rel)),
      read_text = (\<lambda>path. Inr ''6e1a9b0''),
      TEMPORARY_STORAGE_PATH = ''/tmp/gprofiler_tmp'',
      copytree = (\<lambda>src dest. None),
      add_permission_dir = (\<lambda>dest. None),
      get_process_nspid = (\<lambda>p. Inr 1),
      os_readlink = (\<lambda>path. Inr ''pid:[4026532281]''),
      os_kill = (\<lambda>p s. None),
      ns_enter = (\<lambda>kinds p. None),
      os_remove = (\<lambda>path. None),
      pgrep_exe = (\<lambda>pattern. Inr [example_node]),
      perf_path = ''/usr/bin/perf'',
      start_process = (\<lambda>cmd. Inr (Some ''out'', Some ''err'')),
      wait_event = (\<lambda>timeout path. None),
      wait_for_file_by_prefix = (\<lambda>prefix timeout. Inr (prefix @ ''2022010112000000'')),
      run_process = (\<lambda>cmd. Inr ''node 4242/4242 [001] 1.0: cycles: 7f00 main+0x10''),
      unlink = (\<lambda>path. None),
      stop_already_set = False,
      stop_set_during_wait = (\<lambda>timeout. False),
      merge_global_perfs = (\<lambda>fp dwarf. Inr [(4242, [(''node;main'', 3)]), (0, [(''swapper'', 9)])]),
      psutil_Process = (\<lambda>p. if p = 4242 then Inr example_node else Inl NoSuchProcess),
      read_elf_symbol = (\<lambda>path name size. Inr None),
      struct_unpack_QQ = (\<lambda>data. Inr (0, 0)),
      read_elf_va = (\<lambda>path addr len. Inr None),
      bytes_decode = (\<lambda>bytes. Inr bytes),
      is_process_basename_matching = (\<lambda>p pattern. Inr True),
      collector_get_metadata = (\<lambda>c p. Inr (Some [(''node_version'', ''v16.3.2'')]))\<rparr>"

definition empty_world :: world where
  "empty_world =
     \<lparr>heap = [], trace = [], running = [], next_popen = 0, fs = {},
      dso_git_rev_cache = None, dest_cache = (\<lambda>k. None), node_processes = []\<rparr>"





text \<open>Where the payload of the example host is deployed: the path inside the namespace of
  the target, the same path seen from the profiler, and the store after the first deploy.\<close>

definition example_dest :: string where
  "example_dest = ''/tmp/gprofiler_tmp/node_module/6e1a9b0/glibc/16''"

definition example_host_dest :: string where
  "example_host_dest = ''/proc/4242/root/tmp/gprofiler_tmp/node_module/6e1a9b0/glibc/16''"

definition deployed_world :: world where
  "deployed_world =
     empty_world\<lparr>trace := [Copytree ''/opt/gprofiler/resources/node/module/glibc/6e1a9b0/16''
                               example_host_dest,
                             AddPermission example_host_dest],
                 fs := {example_host_dest},
                 dso_git_rev_cache := Some ''6e1a9b0'',
                 dest_cache := (\<lambda>k. None)((False, ''16'') := Some example_dest)\<rparr>"

text \<open>The same host with a second node process that is gone before the profiler looks at
  it.\<close>

definition vanished_node :: Process where
  "vanished_node = \<lparr>pid = 13, create_time = 50\<rparr>"

definition vanishing_env :: env where
  "vanishing_env = example_env
     \<lparr>is_musl := (\<lambda>p. if pid p = 4242 then Inr False else Inl NoSuchProcess),
      get_exe_version := (\<lambda>p. if pid p = 4242 then Inr ''v16.3.2'' else Inl NoSuchProcess)\<rparr>"

text \<open>A store with one frame-pointer controller that was never started, and the example
  host when the output file of the sampler never appears.\<close>

definition idle_world :: world where
  "idle_world = empty_world\<lparr>heap := [PerfProcess_init 11 ''/tmp/gp/perf.fp'' False False []]\<rparr>"

definition example_cmd :: "string list" where
  "example_cmd = [''/usr/bin/perf'', ''record'', ''-F'', ''11'', ''-a'', ''-g'', ''-o'',
                  ''/tmp/gp/perf.fp'', ''--switch-output=signal'', ''-m'', ''129'']"

definition example_popen :: Popen where
  "example_popen = \<lparr>popen_id = 0, stdout = Some ''out'', stderr = Some ''err''\<rparr>"

text \<open>The store after that controller was started on the example host.\<close>

definition started_world :: world where
  "started_world = empty_world
     \<lparr>heap := [(PerfProcess_init 11 ''/tmp/gp/perf.fp'' False False [])\<lparr>process := Some example_popen\<rparr>],
      trace := [Log Info ''Starting perf ({self._type} mode)'' [''fp''],
                StartProcess example_cmd 0,
                Log Info ''Started perf ({self._type} mode)'' [''fp'']],
      running := [0],
      next_popen := 1\<rparr>"

definition timeout_env :: env where
  "timeout_env = example_env\<lparr>wait_event := (\<lambda>timeout path. Some TimeoutError)\<rparr>"

text \<open>The orchestrator of that store, in frame-pointer mode and without live attach, the
  result of its round on the example host and what the round adds to the trace.\<close>

definition example_profiler :: SystemProfiler where
  "example_profiler =
     \<lparr>sp_frequency = 11, duration = 60, storage_dir = ''/tmp/gp'', perfs = [0],
      metadata_collectors = [GolangPerfMetadata, NodePerfMetadata],
      perf_fp = Some 0, perf_dwarf = None, perf_node_attach = False\<rparr>"

definition example_round :: "(int \<times> ProfileData) list" where
  "example_round =
     [(4242, \<lparr>stacks = [(''node;main'', 3)], appid = None,
              app_metadata = Some [(''node_version'', ''v16.3.2'')]\<rparr>),
      (0, \<lparr>stacks = [(''swapper'', 9)], appid = None, app_metadata = None\<rparr>)]"

definition example_round_events :: "event list" where
  "example_round_events =
     [SendSignal 0 SIGUSR2,
      WaitForFile ''/tmp/gp/perf.fp.'' 5,
      Log Debug ''perf stderr: {self._process.stderr.read1(4096)}'' [],
      RunProcess [''/usr/bin/perf'', ''script'', ''-F'', ''+pid'', ''-i'',
                  ''/tmp/gp/perf.fp.2022010112000000''],
      Unlink ''/tmp/gp/perf.fp.2022010112000000'']"

text \<open>The example host when the stop signal is set.\<close>

definition stopped_env :: env where
  "stopped_env = example_env\<lparr>stop_already_set := True\<rparr>"


text \<open>The orchestrator made in mode \<open>smart\<close> with JIT injection asked for, and the store
  its constructor leaves.\<close>

definition smart_profiler :: SystemProfiler where
  "smart_profiler =
     \<lparr>sp_frequency = 11, duration = 60, storage_dir = ''/tmp/gp'', perfs = [0, 1],
      metadata_collectors = [GolangPerfMetadata, NodePerfMetadata],
      perf_fp = Some 0, perf_dwarf = Some 1, perf_node_attach = False\<rparr>"

definition smart_world :: world where
  "smart_world = empty_world
     \<lparr>heap := [\<lparr>frequency = 11, output_path = ''/tmp/gp/perf.fp'', perf_type = ''fp'',
                 inject_jit = True, extra_args = [''-k'', ''1''], process = None\<rparr>,
               \<lparr>frequency = 11, output_path = ''/tmp/gp/perf.dwarf'', perf_type = ''dwarf'',
                 inject_jit = False, extra_args = [''--call-graph'', ''dwarf,8192''],
                 process = None\<rparr>]\<rparr>"

text \<open>That store once both controllers have their subprocess.\<close>

definition smart_started_world :: world where
  "smart_started_world = empty_world
     \<lparr>heap := [\<lparr>frequency = 11, output_path = ''/tmp/gp/perf.fp'', perf_type = ''fp'',
                 inject_jit = True, extra_args = [''-k'', ''1''],
                 process = Some \<lparr>popen_id = 0, stdout = Some ''out'', stderr = Some ''err''\<rparr>\<rparr>,
               \<lparr>frequency = 11, output_path = ''/tmp/gp/perf.dwarf'', perf_type = ''dwarf'',
                 inject_jit = False, extra_args = [''--call-graph'', ''dwarf,8192''],
                 process = Some \<lparr>popen_id = 1, stdout = Some ''out'', stderr = Some ''err''\<rparr>\<rparr>],
      running := [0, 1],
      next_popen := 2\<rparr>"

section \<open>Discovery gives up after five attempts\<close>






section \<open>Evaluating the example host\<close>

lemmas monad_defs =
  bindE_def returnE_def raiseE_def liftE_def checkE_def emit_def catchE_def finallyE_def


lemma digits: "str_int 4242 = ''4242''" "str_int 1 = ''1''"
  by (simp_all add: str_int_def str_nat.simps digit_char_def)



















lemma example_first_deploy:
  "copy_module_into_process_ns example_env example_node False ''16'' empty_world =
     (Inr example_dest, deployed_world)"
  by (simp add: copy_module_into_process_ns_def get_dest_inside_container_def get_dso_git_rev_def
      example_env_def example_node_def empty_world_def deployed_world_def monad_defs
      os_path_join_def path_join2_def digits example_dest_def example_host_dest_def Let_def)




section \<open>A session validates its target before it controls the payload\<close>





section \<open>Deploying the payload twice\<close>

lemma get_dso_git_rev_frame:
  assumes "get_dso_git_rev E w = (r, w1)"
  shows "trace w1 = trace w \<and> fs w1 = fs w \<and> heap w1 = heap w \<and> running w1 = running w
       \<and> dest_cache w1 = dest_cache w"
  using assms
  by (auto simp: get_dso_git_rev_def monad_defs split: option.splits sum.splits if_splits)

lemma get_dest_inside_container_frame:
  assumes "get_dest_inside_container E musl v w = (r, w1)"
  shows "trace w1 = trace w \<and> fs w1 = fs w \<and> heap w1 = heap w \<and> running w1 = running w"
proof (cases "dest_cache w (musl, v)")
  case (Some d)
  with assms show ?thesis by (simp add: get_dest_inside_container_def)
next
  case None
  obtain r0 w0 where g: "get_dso_git_rev E w = (r0, w0)" by (cases "get_dso_git_rev E w")
  from get_dso_git_rev_frame [OF g] assms None g show ?thesis
    by (auto simp: get_dest_inside_container_def bindE_def Let_def split: sum.splits)
qed

lemma get_dest_inside_container_cached:
  assumes "get_dest_inside_container E musl v w = (Inr d, w1)"
  shows "dest_cache w1 (musl, v) = Some d"
proof (cases "dest_cache w (musl, v)")
  case (Some d')
  with assms show ?thesis by (simp add: get_dest_inside_container_def)
next
  case None
  with assms show ?thesis
    by (auto simp: get_dest_inside_container_def bindE_def Let_def split: sum.splits prod.splits)
qed

lemma get_dest_inside_container_hit:
  assumes "dest_cache w (musl, v) = Some d"
  shows "get_dest_inside_container E musl v w = (Inr d, w)"
  using assms by (simp add: get_dest_inside_container_def)

lemma deploy_existing:
  assumes "get_dest_inside_container E musl v w = (Inr d, w1)"
    and "resolve_proc_root_links E (get_proc_root_path E p) d = Inr dest"
    and "dest \<in> fs w"
  shows "copy_module_into_process_ns E p musl v w = (Inr d, w1)"
proof -
  from get_dest_inside_container_frame [OF assms(1)] assms(3) have "dest \<in> fs w1" by simp
  with assms(1,2) show ?thesis
    by (simp add: copy_module_into_process_ns_def bindE_def liftE_def Let_def)
qed

lemma deploy_success:
  assumes "copy_module_into_process_ns E p musl v w = (Inr d, w1)"
  shows "dest_cache w1 (musl, v) = Some d
       \<and> (\<exists>dest. resolve_proc_root_links E (get_proc_root_path E p) d = Inr dest \<and> dest \<in> fs w1)"
proof -
  obtain r0 w0 where g: "get_dest_inside_container E musl v w = (r0, w0)"
    by (cases "get_dest_inside_container E musl v w")
  from assms g obtain d0 where r0: "r0 = Inr d0"
    by (cases r0) (auto simp: copy_module_into_process_ns_def bindE_def Let_def)
  note c = get_dest_inside_container_cached [OF g [unfolded r0]]
  from assms g r0 obtain dest where
    res: "resolve_proc_root_links E (get_proc_root_path E p) d0 = Inr dest"
    by (cases "resolve_proc_root_links E (get_proc_root_path E p) d0")
       (auto simp: copy_module_into_process_ns_def bindE_def liftE_def Let_def)
  show ?thesis
  proof (cases "dest \<in> fs w0")
    case True
    with assms g r0 res c show ?thesis
      by (auto simp: copy_module_into_process_ns_def bindE_def liftE_def Let_def)
  next
    case False
    obtain r2 w2 where g2: "get_dso_git_rev E w0 = (r2, w2)" by (cases "get_dso_git_rev E w0")
    from get_dso_git_rev_frame [OF g2] c have c2: "dest_cache w2 (musl, v) = Some d0" by simp
    from assms g r0 res False g2 c2 show ?thesis
      by (auto simp: copy_module_into_process_ns_def monad_defs Let_def
          split: sum.splits option.splits)
  qed
qed

text \<open>
  C4. When the deployment path of a target's signature (C library, major version, build
  identity) already exists where the target's root is resolved, the deploy returns the
  path inside the namespace and neither the trace (no copy, no permission change) nor the
  file system changes. After a deploy that succeeded, a second deploy for the same
  target, and for any target of the same signature whose resolved path exists, returns
  the same path and leaves the whole store as it is.
\<close>

theorem deploy_is_idempotent:
  "(get_dest_inside_container E musl v w = (Inr d, w1)
      \<and> resolve_proc_root_links E (get_proc_root_path E p) d = Inr dest \<and> dest \<in> fs w
     \<longrightarrow> copy_module_into_process_ns E p musl v w = (Inr d, w1)
         \<and> trace w1 = trace w \<and> fs w1 = fs w)
   \<and> (copy_module_into_process_ns E p musl v w = (Inr d, w1)
     \<longrightarrow> copy_module_into_process_ns E p musl v w1 = (Inr d, w1)
         \<and> (\<forall>q dest'. resolve_proc_root_links E (get_proc_root_path E q) d = Inr dest'
                \<and> dest' \<in> fs w1
              \<longrightarrow> copy_module_into_process_ns E q musl v w1 = (Inr d, w1)))"
proof -
  have a: "copy_module_into_process_ns E p musl v w = (Inr d, w1)
         \<and> trace w1 = trace w \<and> fs w1 = fs w"
    if "get_dest_inside_container E musl v w = (Inr d, w1)"
      "resolve_proc_root_links E (get_proc_root_path E p) d = Inr dest" "dest \<in> fs w"
    using deploy_existing [OF that] get_dest_inside_container_frame [OF that(1)] by simp
  have b: "copy_module_into_process_ns E q musl v w1 = (Inr d, w1)"
    if s: "copy_module_into_process_ns E p musl v w = (Inr d, w1)"
      and q: "resolve_proc_root_links E (get_proc_root_path E q) d = Inr dest'" "dest' \<in> fs w1"
    for q dest'
  proof -
    from deploy_success [OF s] have "dest_cache w1 (musl, v) = Some d" by simp
    then have "get_dest_inside_container E musl v w1 = (Inr d, w1)"
      by (rule get_dest_inside_container_hit)
    from deploy_existing [OF this q] show ?thesis .
  qed
  have c: "copy_module_into_process_ns E p musl v w1 = (Inr d, w1)"
    if s: "copy_module_into_process_ns E p musl v w = (Inr d, w1)"
  proof -
    from deploy_success [OF s] obtain dest' where
      "resolve_proc_root_links E (get_proc_root_path E p) d = Inr dest'" "dest' \<in> fs w1" by blast
    from b [OF s this] show ?thesis .
  qed
  from a b c show ?thesis by blast
qed

theorem deploy_is_idempotent_witness:
  "copy_module_into_process_ns example_env example_node False ''16'' empty_world =
     (Inr example_dest, deployed_world)
   \<and> copy_module_into_process_ns example_env example_node False ''16'' deployed_world =
     (Inr example_dest, deployed_world)
   \<and> get_dest_inside_container example_env False ''16'' deployed_world =
     (Inr example_dest, deployed_world)
   \<and> resolve_proc_root_links example_env (get_proc_root_path example_env example_node)
        example_dest = Inr example_host_dest
   \<and> example_host_dest \<in> fs deployed_world
   \<and> trace deployed_world =
        [Copytree ''/opt/gprofiler/resources/node/module/glibc/6e1a9b0/16'' example_host_dest,
         AddPermission example_host_dest]"
proof -
  have g: "get_dest_inside_container example_env False ''16'' deployed_world =
     (Inr example_dest, deployed_world)"
    by (simp add: get_dest_inside_container_def deployed_world_def)
  have r: "resolve_proc_root_links example_env (get_proc_root_path example_env example_node)
        example_dest = Inr example_host_dest"
    by (simp add: example_env_def example_node_def digits example_dest_def example_host_dest_def)
  have f: "example_host_dest \<in> fs deployed_world"
    by (simp add: deployed_world_def)
  have t: "trace deployed_world =
        [Copytree ''/opt/gprofiler/resources/node/module/glibc/6e1a9b0/16'' example_host_dest,
         AddPermission example_host_dest]"
    by (simp add: deployed_world_def empty_world_def)
  show ?thesis
    using g r f t example_first_deploy
      deploy_is_idempotent [of example_env False "''16''" empty_world example_dest
        deployed_world example_node example_host_dest]
      deploy_is_idempotent [of example_env False "''16''" deployed_world example_dest
        deployed_world example_node example_host_dest]
    by simp
qed

section \<open>One process that fails does not stop the others\<close>

lemma attach_all_step:
  "generate_map_for_node_processes E (p # ps) w =
     generate_map_for_node_processes E ps (after_attach E p w)"
  by (simp add: after_attach_def bindE_def catchE_def emit_def split: prod.splits sum.splits)

lemma detach_all_step:
  "clean_up_node_maps E (p # ps) w = clean_up_node_maps E ps (after_detach E p w)"
  by (simp add: after_detach_def bindE_def catchE_def emit_def split: prod.splits sum.splits)

lemma attach_all_never_raises: "fst (generate_map_for_node_processes E ps w) = Inr ()"
proof (induction ps arbitrary: w)
  case Nil
  show ?case by (simp add: returnE_def)
next
  case (Cons p ps)
  show ?case unfolding attach_all_step by (rule Cons.IH)
qed

lemma detach_all_never_raises: "fst (clean_up_node_maps E ps w) = Inr ()"
proof (induction ps arbitrary: w)
  case Nil
  show ?case by (simp add: returnE_def)
next
  case (Cons p ps)
  show ?case unfolding detach_all_step by (rule Cons.IH)
qed

lemma attach_all_append:
  "generate_map_for_node_processes E (xs @ ys) w =
     generate_map_for_node_processes E ys (snd (generate_map_for_node_processes E xs w))"
proof (induction xs arbitrary: w)
  case Nil
  show ?case by (simp add: returnE_def)
next
  case (Cons x xs)
  show ?case unfolding append_Cons attach_all_step by (rule Cons.IH)
qed

lemma detach_all_append:
  "clean_up_node_maps E (xs @ ys) w =
     clean_up_node_maps E ys (snd (clean_up_node_maps E xs w))"
proof (induction xs arbitrary: w)
  case Nil
  show ?case by (simp add: returnE_def)
next
  case (Cons x xs)
  show ?case unfolding append_Cons detach_all_step by (rule Cons.IH)
qed

text \<open>
  C7. Attaching to a list of processes and detaching from a list of processes never raise,
  whatever the single attaches and detaches do. Every process of the list is attached
  (detached) from the store its predecessors left, whether they raised or not: the run
  over the list is the run over what follows the process, started from the store after
  its own attach (detach), and that store holds the logged warning when the attach
  (detach) raised.
\<close>

theorem attach_and_detach_failures_are_isolated:
  "fst (generate_map_for_node_processes E ps w) = Inr ()
   \<and> fst (clean_up_node_maps E ps w) = Inr ()
   \<and> (\<forall>before p after. ps = before @ p # after \<longrightarrow>
         generate_map_for_node_processes E ps w =
           generate_map_for_node_processes E after
             (after_attach E p (snd (generate_map_for_node_processes E before w))))
   \<and> (\<forall>before p after. ps = before @ p # after \<longrightarrow>
         clean_up_node_maps E ps w =
           clean_up_node_maps E after
             (after_detach E p (snd (clean_up_node_maps E before w))))"
  by (auto simp: attach_all_never_raises detach_all_never_raises
      attach_all_append detach_all_append attach_all_step detach_all_step
      simp del: generate_map_for_node_processes.simps clean_up_node_maps.simps)

lemma vanished_attach:
  "attach_process vanishing_env vanished_node w = (Inl NoSuchProcess, w)"
  by (simp add: attach_process_def vanishing_env_def vanished_node_def monad_defs)

lemma vanished_detach:
  "detach_process vanishing_env vanished_node w = (Inl NoSuchProcess, w)"
  by (simp add: detach_process_def get_node_major_version_def vanishing_env_def example_env_def
      vanished_node_def monad_defs)

theorem attach_and_detach_failures_are_isolated_witness:
  "[vanished_node, example_node] = [] @ vanished_node # [example_node]
   \<and> attach_process vanishing_env vanished_node empty_world = (Inl NoSuchProcess, empty_world)
   \<and> detach_process vanishing_env vanished_node empty_world = (Inl NoSuchProcess, empty_world)
   \<and> fst (generate_map_for_node_processes vanishing_env [vanished_node, example_node] empty_world)
        = Inr ()
   \<and> fst (clean_up_node_maps vanishing_env [vanished_node, example_node] empty_world) = Inr ()
   \<and> generate_map_for_node_processes vanishing_env [vanished_node, example_node] empty_world =
       generate_map_for_node_processes vanishing_env [example_node]
         (empty_world\<lparr>trace := [attach_warning vanished_node]\<rparr>)
   \<and> clean_up_node_maps vanishing_env [vanished_node, example_node] empty_world =
       clean_up_node_maps vanishing_env [example_node]
         (empty_world\<lparr>trace := [detach_warning vanished_node]\<rparr>)"
proof -
  let ?ps = "[vanished_node, example_node]"
  have s: "?ps = [] @ vanished_node # [example_node]" by simp
  note t = attach_and_detach_failures_are_isolated [of vanishing_env ?ps empty_world]
  from t have a: "generate_map_for_node_processes vanishing_env ?ps empty_world =
       generate_map_for_node_processes vanishing_env [example_node]
         (after_attach vanishing_env vanished_node
            (snd (generate_map_for_node_processes vanishing_env [] empty_world)))"
    using s by blast
  from t have d: "clean_up_node_maps vanishing_env ?ps empty_world =
       clean_up_node_maps vanishing_env [example_node]
         (after_detach vanishing_env vanished_node
            (snd (clean_up_node_maps vanishing_env [] empty_world)))"
    using s by blast
  have aa: "after_attach vanishing_env vanished_node empty_world =
      empty_world\<lparr>trace := [attach_warning vanished_node]\<rparr>"
    by (simp add: after_attach_def vanished_attach empty_world_def)
  have ad: "after_detach vanishing_env vanished_node empty_world =
      empty_world\<lparr>trace := [detach_warning vanished_node]\<rparr>"
    by (simp add: after_detach_def vanished_detach empty_world_def)
  have n: "snd (generate_map_for_node_processes vanishing_env [] empty_world) = empty_world"
    "snd (clean_up_node_maps vanishing_env [] empty_world) = empty_world"
    by (simp_all add: returnE_def)
  from t have f: "fst (generate_map_for_node_processes vanishing_env ?ps empty_world) = Inr ()"
    "fst (clean_up_node_maps vanishing_env ?ps empty_world) = Inr ()" by blast+
  show ?thesis
    using s f a d vanished_attach [of empty_world] vanished_detach [of empty_world]
    unfolding n aa ad by blast
qed

section \<open>Stopping a controller\<close>

lemma deref_valid: "self < length (heap w) \<Longrightarrow> deref self w = (Inr (heap w ! self), w)"
  by (simp add: deref_def)

lemma stop_unstarted:
  assumes "self < length (heap w)" "process (heap w ! self) = None"
  shows "PerfProcess_stop E self w = (Inr (), w)"
  using assms by (simp add: PerfProcess_stop_def deref_valid bindE_def returnE_def)

lemma stop_started:
  assumes "self < length (heap w)" "process (heap w ! self) = Some proc"
  shows "PerfProcess_stop E self w =
     (Inr (),
      w\<lparr>trace := trace w @ [Terminate (popen_id proc), Wait (popen_id proc),
                             Log Info ''Stopped perf ({self._type} mode)'' [perf_type (heap w ! self)]],
        running := removeAll (popen_id proc) (running w),
        heap := (heap w)[self := (heap w ! self)\<lparr>process := None\<rparr>]\<rparr>)"
  using assms
  by (simp add: PerfProcess_stop_def deref_valid bindE_def returnE_def emit_def gone_def
      set_process_def)

lemma start_success_handle:
  assumes "PerfProcess_start E self w0 = (Inr (), w)"
  shows "self < length (heap w) \<and>
     (\<exists>proc. process (heap w ! self) = Some proc \<and> popen_id proc = next_popen w0)"
  using assms
  by (auto simp: PerfProcess_start_def deref_def monad_defs launch_def set_process_def gone_def
      split: if_splits sum.splits option.splits prod.splits)

text \<open>
  C6. On a controller, \<open>stop\<close> never raises and leaves the subprocess handle absent; a
  second \<open>stop\<close> right after changes nothing at all, so the subprocess is terminated only
  once. On a controller that was never started \<open>stop\<close> does nothing. On a started one it
  sends one terminate, waits, and the subprocess runs no more. The handle attribute holds
  at most one subprocess by its type, and after a successful \<open>start\<close> it is the subprocess
  that this \<open>start\<close> launched.
\<close>

theorem stop_is_safe_and_idempotent:
  assumes "self < length (heap w)"
  shows "fst (PerfProcess_stop E self w) = Inr ()
     \<and> process (heap (snd (PerfProcess_stop E self w)) ! self) = None
     \<and> PerfProcess_stop E self (snd (PerfProcess_stop E self w)) =
         (Inr (), snd (PerfProcess_stop E self w))
     \<and> (process (heap w ! self) = None \<longrightarrow> PerfProcess_stop E self w = (Inr (), w))
     \<and> (\<forall>proc. process (heap w ! self) = Some proc \<longrightarrow>
           trace (snd (PerfProcess_stop E self w)) =
             trace w @ [Terminate (popen_id proc), Wait (popen_id proc),
                        Log Info ''Stopped perf ({self._type} mode)'' [perf_type (heap w ! self)]]
           \<and> popen_id proc \<notin> set (running (snd (PerfProcess_stop E self w))))
     \<and> (\<forall>w0. PerfProcess_start E self w0 = (Inr (), w) \<longrightarrow>
           (\<exists>proc. process (heap w ! self) = Some proc \<and> popen_id proc = next_popen w0))"
proof (cases "process (heap w ! self)")
  case None
  note s = stop_unstarted [OF assms None]
  show ?thesis using None start_success_handle by (fastforce simp: s)
next
  case (Some proc)
  note s = stop_started [OF assms Some]
  let ?w' = "snd (PerfProcess_stop E self w)"
  have l: "self < length (heap ?w')" using assms by (simp add: s)
  have n: "process (heap ?w' ! self) = None" using assms by (simp add: s)
  note s2 = stop_unstarted [OF l n]
  show ?thesis using Some n s2 start_success_handle by (fastforce simp: s)
qed

lemma more_digits: "str_int 11 = ''11''" "str_int 129 = ''129''" "str_int 257 = ''257''"
  by (simp_all add: str_int_def str_nat.simps digit_char_def)

lemma example_perf_cmd:
  "get_perf_cmd example_env (PerfProcess_init 11 ''/tmp/gp/perf.fp'' False False []) = Inr example_cmd"
  "get_perf_cmd timeout_env (PerfProcess_init 11 ''/tmp/gp/perf.fp'' False False []) = Inr example_cmd"
  by (simp_all add: get_perf_cmd_def PerfProcess_init_def mmap_sizes_def example_cmd_def
      timeout_env_def example_env_def more_digits)

lemma idle_heap: "heap idle_world = [PerfProcess_init 11 ''/tmp/gp/perf.fp'' False False []]"
  by (simp add: idle_world_def empty_world_def)

lemma example_start:
  "PerfProcess_start example_env 0 idle_world = (Inr (), started_world)"
proof -
  have e: "start_process example_env c = Inr (Some ''out'', Some ''err'')"
    "wait_event example_env t p = None" for c t p
    by (simp_all add: example_env_def)
  show ?thesis
    apply (simp add: PerfProcess_start_def deref_def idle_heap example_perf_cmd e monad_defs
        launch_def set_process_def)
    apply (simp add: idle_world_def started_world_def empty_world_def PerfProcess_init_def
        example_popen_def)
    done
qed

theorem stop_is_safe_and_idempotent_witness:
  "0 < length (heap idle_world)
   \<and> process (heap idle_world ! 0) = None
   \<and> PerfProcess_stop example_env 0 idle_world = (Inr (), idle_world)
   \<and> 0 < length (heap started_world)
   \<and> PerfProcess_start example_env 0 idle_world = (Inr (), started_world)
   \<and> process (heap started_world ! 0) = Some example_popen
   \<and> fst (PerfProcess_stop example_env 0 started_world) = Inr ()
   \<and> trace (snd (PerfProcess_stop example_env 0 started_world)) =
        trace started_world @ [Terminate 0, Wait 0, Log Info ''Stopped perf ({self._type} mode)'' [''fp'']]
   \<and> 0 \<notin> set (running (snd (PerfProcess_stop example_env 0 started_world)))
   \<and> process (heap (snd (PerfProcess_stop example_env 0 started_world)) ! 0) = None
   \<and> PerfProcess_stop example_env 0 (snd (PerfProcess_stop example_env 0 started_world)) =
        (Inr (), snd (PerfProcess_stop example_env 0 started_world))"
proof -
  have i: "0 < length (heap idle_world)" "process (heap idle_world ! 0) = None"
    by (simp_all add: idle_heap PerfProcess_init_def)
  have s: "0 < length (heap started_world)" "process (heap started_world ! 0) = Some example_popen"
    "perf_type (heap started_world ! 0) = ''fp''" "popen_id example_popen = 0"
    by (simp_all add: started_world_def empty_world_def PerfProcess_init_def example_popen_def)
  show ?thesis
    using i s example_start
      stop_is_safe_and_idempotent [OF i(1), of example_env]
      stop_is_safe_and_idempotent [OF s(1), of example_env]
    by simp
qed

section \<open>A start that times out\<close>

text \<open>
  C5. When \<open>wait_event\<close> times out in \<open>start\<close> (the output file did not appear), on a
  controller without a subprocess whose launched subprocess has both streams piped,
  \<open>start\<close> raises \<open>TimeoutError\<close>; it has launched the subprocess, killed it and logged its
  standard output and standard error, in this order; the launched subprocess is not among
  the running ones and no other subprocess was added; the controller's handle is still
  absent.
\<close>

theorem start_timeout_kills_the_subprocess:
  assumes "self < length (heap w)"
    and "process (heap w ! self) = None"
    and "get_perf_cmd E (heap w ! self) = Inr cmd"
    and "start_process E cmd = Inr (Some out, Some err)"
    and "wait_event E poll_timeout_s (output_path (heap w ! self)) = Some TimeoutError"
  shows "fst (PerfProcess_start E self w) = Inl TimeoutError
     \<and> trace (snd (PerfProcess_start E self w)) =
         trace w @ [Log Info ''Starting perf ({self._type} mode)'' [perf_type (heap w ! self)],
                    StartProcess cmd (next_popen w),
                    Kill (next_popen w),
                    start_failure out err]
     \<and> next_popen w \<notin> set (running (snd (PerfProcess_start E self w)))
     \<and> set (running (snd (PerfProcess_start E self w))) \<subseteq> set (running w)
     \<and> heap (snd (PerfProcess_start E self w)) = heap w
     \<and> process (heap (snd (PerfProcess_start E self w)) ! self) = None"
  using assms
  by (auto simp: PerfProcess_start_def deref_def monad_defs launch_def gone_def)

theorem start_timeout_kills_the_subprocess_witness:
  "0 < length (heap idle_world)
   \<and> process (heap idle_world ! 0) = None
   \<and> get_perf_cmd timeout_env (heap idle_world ! 0) = Inr example_cmd
   \<and> start_process timeout_env example_cmd = Inr (Some ''out'', Some ''err'')
   \<and> wait_event timeout_env poll_timeout_s (output_path (heap idle_world ! 0)) = Some TimeoutError
   \<and> fst (PerfProcess_start timeout_env 0 idle_world) = Inl TimeoutError
   \<and> trace (snd (PerfProcess_start timeout_env 0 idle_world)) =
        [Log Info ''Starting perf ({self._type} mode)'' [''fp''],
         StartProcess example_cmd 0, Kill 0, start_failure ''out'' ''err'']
   \<and> running (snd (PerfProcess_start timeout_env 0 idle_world)) = []
   \<and> process (heap (snd (PerfProcess_start timeout_env 0 idle_world)) ! 0) = None"
proof -
  have i: "0 < length (heap idle_world)" "process (heap idle_world ! 0) = None"
    by (simp_all add: idle_heap PerfProcess_init_def)
  have c: "get_perf_cmd timeout_env (heap idle_world ! 0) = Inr example_cmd"
    by (simp add: idle_heap example_perf_cmd)
  have p: "start_process timeout_env example_cmd = Inr (Some ''out'', Some ''err'')"
    by (simp add: timeout_env_def example_env_def)
  have t: "wait_event timeout_env poll_timeout_s (output_path (heap idle_world ! 0)) = Some TimeoutError"
    by (simp add: timeout_env_def)
  have x: "perf_type (heap idle_world ! 0) = ''fp''" "trace idle_world = []"
    "running idle_world = []" "next_popen idle_world = 0"
    by (simp_all add: idle_world_def empty_world_def PerfProcess_init_def)
  show ?thesis
    using i c p t start_timeout_kills_the_subprocess [OF i c p t]
    by (simp add: x)
qed

section \<open>What the steps of a round add to the trace\<close>

lemma emitsI:
  assumes "\<And>w. heap (snd (m w)) = heap w"
    and "\<And>w. running (snd (m w)) = running w"
    and "\<And>w. \<exists>evs. trace (snd (m w)) = trace w @ evs \<and> list_all P evs"
  shows "emits P m"
  using assms by (simp add: emits_def)

lemma emitsD:
  assumes "emits P m" and "m w = (r, w1)"
  shows "heap w1 = heap w \<and> running w1 = running w
       \<and> (\<exists>evs. trace w1 = trace w @ evs \<and> list_all P evs)"
proof -
  from assms(1) have "heap (snd (m w)) = heap w \<and> running (snd (m w)) = running w
          \<and> (\<exists>evs. trace (snd (m w)) = trace w @ evs \<and> list_all P evs)"
    unfolding emits_def by blast
  with assms(2) show ?thesis by simp
qed

lemma emits_returnE: "emits P (returnE x)"
  by (simp add: emits_def returnE_def)

lemma emits_raiseE: "emits P (raiseE e)"
  by (simp add: emits_def raiseE_def)

lemma emits_liftE: "emits P (liftE r)"
  by (simp add: emits_def liftE_def)

lemma emits_checkE: "emits P (checkE r)"
  by (simp add: emits_def checkE_def)

lemma emits_emit: "P ev \<Longrightarrow> emits P (emit ev)"
  by (simp add: emits_def emit_def)

lemma emits_deref: "emits P (deref r)"
  by (simp add: emits_def deref_def)

lemma emits_bindE:
  assumes "emits P m" and "\<And>x. emits P (f x)"
  shows "emits P (bindE m f)"
proof (rule emitsI)
  fix w
  obtain r w1 where m: "m w = (r, w1)" by (cases "m w")
  from emitsD [OF assms(1) m] obtain evs1 where
    1: "heap w1 = heap w" "running w1 = running w" "trace w1 = trace w @ evs1" "list_all P evs1"
    by blast
  show "heap (snd (bindE m f w)) = heap w"
    using assms(2) m 1 by (cases r) (auto simp: bindE_def emits_def)
  show "running (snd (bindE m f w)) = running w"
    using assms(2) m 1 by (cases r) (auto simp: bindE_def emits_def)
  show "\<exists>evs. trace (snd (bindE m f w)) = trace w @ evs \<and> list_all P evs"
  proof (cases r)
    case (Inl e)
    with m 1 show ?thesis by (auto simp: bindE_def)
  next
    case (Inr x)
    from assms(2) [of x] obtain evs2 where
      "trace (snd (f x w1)) = trace w1 @ evs2" "list_all P evs2"
      unfolding emits_def by blast
    with m 1 Inr show ?thesis by (auto simp: bindE_def intro!: exI [of _ "evs1 @ evs2"])
  qed
qed

lemma emits_catchE:
  assumes "emits P m" and "\<And>e. emits P (h e)"
  shows "emits P (catchE m h)"
proof (rule emitsI)
  fix w
  obtain r w1 where m: "m w = (r, w1)" by (cases "m w")
  from emitsD [OF assms(1) m] obtain evs1 where
    1: "heap w1 = heap w" "running w1 = running w" "trace w1 = trace w @ evs1" "list_all P evs1"
    by blast
  show "heap (snd (catchE m h w)) = heap w"
    using assms(2) m 1 by (cases r) (auto simp: catchE_def emits_def)
  show "running (snd (catchE m h w)) = running w"
    using assms(2) m 1 by (cases r) (auto simp: catchE_def emits_def)
  show "\<exists>evs. trace (snd (catchE m h w)) = trace w @ evs \<and> list_all P evs"
  proof (cases r)
    case (Inr x)
    with m 1 show ?thesis by (auto simp: catchE_def)
  next
    case (Inl e)
    from assms(2) [of e] obtain evs2 where
      "trace (snd (h e w1)) = trace w1 @ evs2" "list_all P evs2"
      unfolding emits_def by blast
    with m 1 Inl show ?thesis by (auto simp: catchE_def intro!: exI [of _ "evs1 @ evs2"])
  qed
qed

lemma emits_finallyE:
  assumes "emits P m" and "emits P c"
  shows "emits P (finallyE m c)"
proof (rule emitsI)
  fix w
  obtain r w1 where m: "m w = (r, w1)" by (cases "m w")
  obtain r2 w2 where c: "c w1 = (r2, w2)" by (cases "c w1")
  from emitsD [OF assms(1) m] obtain evs1 where
    1: "heap w1 = heap w" "running w1 = running w" "trace w1 = trace w @ evs1" "list_all P evs1"
    by blast
  from emitsD [OF assms(2) c] obtain evs2 where
    2: "heap w2 = heap w1" "running w2 = running w1" "trace w2 = trace w1 @ evs2" "list_all P evs2"
    by blast
  have s: "snd (finallyE m c w) = w2"
    using m c by (cases r2) (simp_all add: finallyE_def)
  show "heap (snd (finallyE m c w)) = heap w" using 1 2 by (simp add: s)
  show "running (snd (finallyE m c w)) = running w" using 1 2 by (simp add: s)
  show "\<exists>evs. trace (snd (finallyE m c w)) = trace w @ evs \<and> list_all P evs"
    using 1 2 by (auto simp: s intro!: exI [of _ "evs1 @ evs2"])
qed

lemma emits_if:
  assumes "c \<Longrightarrow> emits P a" and "\<not> c \<Longrightarrow> emits P b"
  shows "emits P (if c then a else b)"
  using assms by simp

lemma emits_case_option:
  assumes "emits P a" and "\<And>y. emits P (b y)"
  shows "emits P (case x of None \<Rightarrow> a | Some y \<Rightarrow> b y)"
  using assms by (cases x) simp_all

lemma emits_case_prod:
  assumes "\<And>a b. emits P (f a b)"
  shows "emits P (case x of (a, b) \<Rightarrow> f a b)"
  using assms by (cases x) simp

lemma emits_Let:
  assumes "\<And>x. emits P (f x)"
  shows "emits P (Let v f)"
  using assms by (simp add: Let_def)

lemma emits_weaken:
  assumes "emits P m" and "\<And>e. P e \<Longrightarrow> Q e"
  shows "emits Q m"
  using assms by (fastforce simp: emits_def list_all_iff)

lemmas emits_rules =
  emits_returnE emits_raiseE emits_liftE emits_checkE emits_deref emits_bindE emits_catchE
  emits_finallyE emits_if emits_case_option emits_case_prod emits_Let

lemma emits_wait_and_script_of:
  "emits collect_event (wait_and_script_of E obj)"
  unfolding wait_and_script_of_def
  by (intro emits_rules emits_emit) (simp_all add: dump_failure_def)

lemma emits_wait_and_script: "emits collect_event (wait_and_script E self)"
  unfolding wait_and_script_def by (intro emits_rules emits_wait_and_script_of)

lemma emits_collect_if_present: "emits collect_event (collect_if_present E perf)"
  unfolding collect_if_present_def by (intro emits_rules emits_wait_and_script)

lemma inject_is_not_script: "inject_cmd E x y \<noteq> script_cmd E z"
  by (simp add: inject_cmd_def script_cmd_def)

lemma no_inject_without_flag:
  assumes "\<not> inject_jit obj"
  shows "emits (\<lambda>e. \<forall>x y. e \<noteq> RunProcess (inject_cmd E x y)) (wait_and_script_of E obj)"
  unfolding wait_and_script_of_def using assms
  by (intro emits_rules emits_emit) (simp_all add: dump_failure_def inject_is_not_script [symmetric])

lemma emits_read: "emits P (\<lambda>w. (g w, w))"
  by (simp add: emits_def)

lemma emits_state_if:
  assumes "emits P a" and "emits P b"
  shows "emits P (\<lambda>w. if c w then a w else b w)"
  using assms by (simp add: emits_def)

lemma emits_frame:
  assumes "\<And>w. trace (snd (m w)) = trace w \<and> heap (snd (m w)) = heap w
              \<and> running (snd (m w)) = running w"
  shows "emits P m"
  using assms by (simp add: emits_def)

lemma emits_get_debugger_url_once: "emits attach_event (get_debugger_url_once E)"
  unfolding get_debugger_url_once_def
  by (intro emits_rules emits_emit emits_read) simp_all

lemma retry_internal_Suc:
  "retry_internal f ex (Suc n) d =
     catchE (bindE f (\<lambda>x. returnE (Some x)))
       (\<lambda>e. if ex e then
              (if n = 0 then raiseE e
               else bindE (emit (Log Warning ''%s, retrying in %s seconds...'' [str_nat d])) (\<lambda>_.
                    bindE (emit (Sleep d)) (\<lambda>_. retry_internal f ex n d)))
            else raiseE e)"
  by (rule ext) (simp add: catchE_def bindE_def returnE_def raiseE_def split: prod.splits sum.splits)

lemma emits_retry_internal:
  assumes "emits attach_event f"
  shows "emits attach_event (retry_internal f ex n d)"
proof (induction n)
  case 0
  show ?case by (simp add: emits_returnE)
next
  case (Suc n)
  show ?case
    unfolding retry_internal_Suc
    by (intro emits_rules emits_emit assms Suc.IH) simp_all
qed

lemma emits_get_debugger_url: "emits attach_event (get_debugger_url E)"
  unfolding get_debugger_url_def
  by (rule emits_retry_internal) (rule emits_get_debugger_url_once)

lemma emits_execute_js_command: "emits attach_event (execute_js_command E sock c)"
  unfolding execute_js_command_def by (intro emits_rules emits_emit) simp

lemma emits_send_socket_request: "emits attach_event (send_socket_request E sock req)"
  unfolding send_socket_request_def by (intro emits_rules emits_emit) simp

lemma emits_create_debugger_socket: "emits attach_event (create_debugger_socket E nspid l)"
  unfolding create_debugger_socket_def validate_ns_node_def validate_pid_def
  by (intro emits_rules emits_emit emits_get_debugger_url emits_execute_js_command) simp

lemma emits_change_dso_state: "emits attach_event (change_dso_state E sock mp a)"
  unfolding change_dso_state_def by (intro emits_rules emits_send_socket_request)

lemma emits_generate_perf_map: "emits attach_event (generate_perf_map E mp nspid l)"
  unfolding generate_perf_map_def
  by (intro emits_rules emits_create_debugger_socket emits_change_dso_state)

lemma emits_clean_up: "emits attach_event (clean_up E mp nspid l)"
  unfolding clean_up_def
  by (intro emits_rules emits_emit emits_create_debugger_socket emits_change_dso_state) simp

lemma emits_get_dso_git_rev: "emits P (get_dso_git_rev E)"
proof (rule emits_frame)
  fix w
  obtain r w1 where g: "get_dso_git_rev E w = (r, w1)" by (cases "get_dso_git_rev E w")
  from get_dso_git_rev_frame [OF g] g
  show "trace (snd (get_dso_git_rev E w)) = trace w \<and> heap (snd (get_dso_git_rev E w)) = heap w
              \<and> running (snd (get_dso_git_rev E w)) = running w" by simp
qed

lemma emits_get_dest_inside_container: "emits P (get_dest_inside_container E musl v)"
proof (rule emits_frame)
  fix w
  obtain r w1 where g: "get_dest_inside_container E musl v w = (r, w1)"
    by (cases "get_dest_inside_container E musl v w")
  from get_dest_inside_container_frame [OF g] g
  show "trace (snd (get_dest_inside_container E musl v w)) = trace w
      \<and> heap (snd (get_dest_inside_container E musl v w)) = heap w
      \<and> running (snd (get_dest_inside_container E musl v w)) = running w" by simp
qed

lemma emits_fs_insert: "emits P (\<lambda>w. (Inr (), w\<lparr>fs := insert dest (fs w)\<rparr>))"
  by (simp add: emits_def)

lemma emits_copy_module: "emits attach_event (copy_module_into_process_ns E p musl v)"
  unfolding copy_module_into_process_ns_def
  by (intro emits_rules emits_emit emits_state_if emits_read emits_get_dest_inside_container
      emits_get_dso_git_rev emits_fs_insert) simp_all

lemma emits_get_node_major_version: "emits P (get_node_major_version E p)"
  unfolding get_node_major_version_def by (intro emits_rules)

lemma emits_attach_process: "emits attach_event (attach_process E p)"
  unfolding attach_process_def start_debugger_def run_in_ns_def
  by (intro emits_rules emits_emit emits_get_node_major_version emits_copy_module
      emits_generate_perf_map) simp_all

lemma emits_attach_all: "emits attach_event (generate_map_for_node_processes E ps)"
proof (induction ps)
  case Nil
  show ?case by (simp add: emits_returnE)
next
  case (Cons p ps)
  show ?case
    unfolding generate_map_for_node_processes.simps
    by (intro emits_rules emits_emit emits_attach_process Cons.IH) (simp add: attach_warning_def)
qed

lemma emits_set_node_processes: "emits P (\<lambda>w. (Inr (), w\<lparr>node_processes := f w\<rparr>))"
  by (simp add: emits_def)

lemma emits_refresh_node_processes: "emits attach_event (refresh_node_processes E)"
  unfolding refresh_node_processes_def get_node_processes_def
  by (intro emits_rules emits_read emits_set_node_processes emits_attach_all)

lemma emits_before_wait: "emits attach_event (before_wait E sp)"
  unfolding before_wait_def by (intro emits_rules emits_refresh_node_processes)

section \<open>One round: the stop signal, rotation before collection, metadata\<close>

lemma attach_event_is_neither:
  "attach_event e \<Longrightarrow> \<not> rotate_event e \<and> \<not> collect_event e"
  by (cases e) auto

lemma collect_event_is_no_rotation: "collect_event e \<Longrightarrow> \<not> rotate_event e"
  by (cases e) auto

text \<open>
  C8. When \<open>snapshot\<close> reaches the wait for the end of the round and the stop signal is set
  already or becomes set during the wait, \<open>snapshot\<close> raises \<open>StopEventSetException\<close>, an
  exception of its own and none of the failures, and does nothing after the wait: the
  store is the one in which the wait was reached, and what \<open>snapshot\<close> added to the trace
  holds no rotate signal and no action of the collect step.
\<close>

theorem stop_signal_ends_the_round:
  assumes "before_wait E sp w = (Inr (), w1)"
    and "stop_already_set E \<or> stop_set_during_wait E (duration sp)"
  shows "snapshot E sp w = (Inl StopEventSetException, w1)
     \<and> (\<exists>evs. trace w1 = trace w @ evs
            \<and> list_all (\<lambda>e. \<not> rotate_event e \<and> \<not> collect_event e) evs)"
proof -
  from assms have s: "snapshot E sp w = (Inl StopEventSetException, w1)"
    by (simp add: snapshot_def bindE_def Event_wait_def raiseE_def)
  from emitsD [OF emits_before_wait assms(1)] obtain evs where
    e: "trace w1 = trace w @ evs" "list_all attach_event evs" by blast
  from e(2) have "list_all (\<lambda>e. \<not> rotate_event e \<and> \<not> collect_event e) evs"
    using attach_event_is_neither by (simp add: list_all_iff)
  with s e(1) show ?thesis by blast
qed

lemma rotation_of_heap: "heap w1 = heap w \<Longrightarrow> rotation_of w1 r = rotation_of w r"
  by (simp add: rotation_of_def)

lemma switch_output_cases:
  "switch_output E r w =
     (case rotation_of w r of
        None \<Rightarrow> (Inl (if r < length (heap w) then AssertionError else OtherError 0), w)
      | Some ev \<Rightarrow> (Inr (), w\<lparr>trace := trace w @ [ev]\<rparr>))"
  by (simp add: switch_output_def rotation_of_def deref_def bindE_def raiseE_def emit_def
      split: option.splits)

lemma rotation_of_is_rotation: "rotation_of w r = Some ev \<Longrightarrow> rotate_event ev"
  by (auto simp: rotation_of_def split: if_splits option.splits)

lemma rotate_all:
  assumes "for_each (switch_output E) rs w = (r, w1)"
  shows "heap w1 = heap w \<and> running w1 = running w
     \<and> (\<exists>rot. trace w1 = trace w @ rot \<and> list_all rotate_event rot
            \<and> (r = Inr () \<longrightarrow> map Some rot = map (rotation_of w) rs))"
  using assms
proof (induction rs arbitrary: w)
  case Nil
  then show ?case by (auto simp: returnE_def)
next
  case (Cons a rs)
  show ?case
  proof (cases "rotation_of w a")
    case None
    with Cons.prems show ?thesis
      by (auto simp: bindE_def switch_output_cases [of E a w])
  next
    case (Some ev)
    let ?w = "w\<lparr>trace := trace w @ [ev]\<rparr>"
    from Cons.prems Some have "for_each (switch_output E) rs ?w = (r, w1)"
      by (simp add: bindE_def switch_output_cases [of E a w])
    from Cons.IH [OF this] obtain rot where
      h: "heap w1 = heap w" "running w1 = running w"
      and t: "trace w1 = trace w @ ev # rot" "list_all rotate_event rot"
      and a: "r = Inr () \<longrightarrow> map Some rot = map (rotation_of ?w) rs"
      by auto
    have "rotation_of ?w = rotation_of w" by (rule ext) (simp add: rotation_of_def)
    with a Some have "r = Inr () \<longrightarrow> map Some (ev # rot) = map (rotation_of w) (a # rs)" by simp
    moreover have "list_all rotate_event (ev # rot)"
      using t(2) rotation_of_is_rotation [OF Some] by simp
    ultimately show ?thesis using h t(1) by blast
  qed
qed

lemma emits_collect_and_merge: "emits collect_event (collect_and_merge E sp)"
  unfolding collect_and_merge_def by (intro emits_rules emits_collect_if_present)

lemma snapshot_phases:
  "snapshot E sp =
     bindE (before_wait E sp) (\<lambda>_.
       if Event_wait E (duration sp) then raiseE StopEventSetException
       else bindE (for_each (switch_output E) (perfs sp)) (\<lambda>_. collect_and_merge E sp))"
  by (simp add: snapshot_def collect_and_merge_def)

text \<open>
  C1. Whatever \<open>snapshot\<close> returns or raises, what it adds to the trace is in three parts:
  first attach events, then rotate signals, then actions of the collect step (none of
  which is a rotate signal). When the collect step did anything at all, the rotate
  signals are exactly those of all controllers of the orchestrator's list, in the order
  of the list, each to the subprocess of its controller.
\<close>

theorem rotation_precedes_collection:
  assumes "snapshot E sp w = (r, w')"
  shows "\<exists>pre rot col. trace w' = trace w @ pre @ rot @ col
     \<and> list_all attach_event pre \<and> list_all rotate_event rot \<and> list_all collect_event col
     \<and> (col \<noteq> [] \<longrightarrow> map Some rot = map (rotation_of w) (perfs sp))"
proof -
  obtain r0 w0 where b: "before_wait E sp w = (r0, w0)" by (cases "before_wait E sp w")
  from emitsD [OF emits_before_wait b] obtain pre where
    p: "heap w0 = heap w" "trace w0 = trace w @ pre" "list_all attach_event pre" by blast
  have early: ?thesis if "w' = w0"
    using that p by (intro exI [of _ pre] exI [of _ "[]"]) simp
  show ?thesis
  proof (cases r0)
    case (Inl e)
    with assms b have "w' = w0" by (simp add: snapshot_phases bindE_def)
    then show ?thesis by (rule early)
  next
    case (Inr u)
    show ?thesis
    proof (cases "Event_wait E (duration sp)")
      case True
      with assms b Inr have "w' = w0" by (simp add: snapshot_phases bindE_def raiseE_def)
      then show ?thesis by (rule early)
    next
      case False
      obtain r1 w1 where f: "for_each (switch_output E) (perfs sp) w0 = (r1, w1)"
        by (cases "for_each (switch_output E) (perfs sp) w0")
      from rotate_all [OF f] obtain rot where
        q: "trace w1 = trace w0 @ rot" "list_all rotate_event rot"
          "r1 = Inr () \<longrightarrow> map Some rot = map (rotation_of w0) (perfs sp)" by blast
      have rw: "rotation_of w0 = rotation_of w"
        by (rule ext) (simp add: rotation_of_heap [OF p(1)])
      show ?thesis
      proof (cases r1)
        case (Inl e)
        with assms b Inr False f have "w' = w1" by (simp add: snapshot_phases bindE_def)
        with p q show ?thesis
          by (intro exI [of _ pre] exI [of _ rot] exI [of _ "[]"]) simp
      next
        case (Inr u1)
        with assms b \<open>r0 = Inr u\<close> False f have c: "collect_and_merge E sp w1 = (r, w')"
          by (simp add: snapshot_phases bindE_def)
        from emitsD [OF emits_collect_and_merge c] obtain col where
          "trace w' = trace w1 @ col" "list_all collect_event col" by blast
        with p q Inr rw show ?thesis
          by (intro exI [of _ pre] exI [of _ rot] exI [of _ col]) simp
      qed
    qed
  qed
qed

lemma started_facts:
  "heap started_world = [(PerfProcess_init 11 ''/tmp/gp/perf.fp'' False False [])\<lparr>process := Some example_popen\<rparr>]"
  "rotation_of started_world 0 = Some (SendSignal 0 SIGUSR2)"
  by (simp_all add: started_world_def empty_world_def rotation_of_def example_popen_def)

lemma example_rotation:
  "for_each (switch_output example_env) [0] w =
     (case rotation_of w 0 of
        None \<Rightarrow> (Inl (if 0 < length (heap w) then AssertionError else OtherError 0), w)
      | Some ev \<Rightarrow> (Inr (), w\<lparr>trace := trace w @ [ev]\<rparr>))"
  by (simp add: switch_output_cases [of example_env 0 w] bindE_def returnE_def split: option.splits)

lemma example_script:
  assumes "heap w = heap started_world"
  shows "wait_and_script example_env 0 w =
     (Inr ''node 4242/4242 [001] 1.0: cycles: 7f00 main+0x10'',
      w\<lparr>trace := trace w @ tl example_round_events\<rparr>)"
proof -
  have e: "wait_for_file_by_prefix example_env p t = Inr (p @ ''2022010112000000'')"
    "run_process example_env c = Inr ''node 4242/4242 [001] 1.0: cycles: 7f00 main+0x10''"
    "unlink example_env q = None" "bytes_decode example_env b = Inr b"
    "perf_path example_env = ''/usr/bin/perf''" for p t c q b
    by (simp_all add: example_env_def)
  show ?thesis
    by (simp add: wait_and_script_def wait_and_script_of_def deref_def assms started_facts
        PerfProcess_init_def example_popen_def e monad_defs script_cmd_def dump_timeout_s_def
        example_round_events_def)
qed

lemma example_metadata:
  "get_metadata example_env example_profiler 4242 = Inr (Some [(''node_version'', ''v16.3.2'')])"
  "get_metadata example_env example_profiler 0 = Inr None"
  "get_metadata example_env example_profiler 999 = Inr None"
  by (simp_all add: get_metadata_def lookup_metadata_def example_profiler_def example_env_def
      get_golang_version_def not_found_is_no_process_def)

lemma example_round_result:
  "round_result example_env example_profiler [(4242, [(''node;main'', 3)]), (0, [(''swapper'', 9)])]
     = Inr example_round"
  by (simp add: example_metadata example_round_def)

lemma example_snapshot:
  "snapshot example_env example_profiler started_world =
     (Inr example_round, started_world\<lparr>trace := trace started_world @ example_round_events\<rparr>)"
proof -
  have e: "Event_wait example_env d = False"
    "merge_global_perfs example_env a b = Inr [(4242, [(''node;main'', 3)]), (0, [(''swapper'', 9)])]"
    for d a b
    by (simp_all add: Event_wait_def example_env_def)
  have p: "perf_node_attach example_profiler = False" "perfs example_profiler = [0]"
    "perf_fp example_profiler = Some 0" "perf_dwarf example_profiler = None"
    by (simp_all add: example_profiler_def)
  let ?w1 = "started_world\<lparr>trace := trace started_world @ [SendSignal 0 SIGUSR2]\<rparr>"
  have r1: "for_each (switch_output example_env) [0] started_world = (Inr (), ?w1)"
    by (simp only: example_rotation started_facts option.case)
  have r2: "wait_and_script example_env 0 ?w1 =
     (Inr ''node 4242/4242 [001] 1.0: cycles: 7f00 main+0x10'',
      ?w1\<lparr>trace := trace ?w1 @ tl example_round_events\<rparr>)"
    by (rule example_script) simp
  show ?thesis
    by (simp add: snapshot_def before_wait_def p e r1 r2
        collect_if_present_def example_round_result monad_defs
        example_round_events_def del: for_each.simps round_result.simps)
qed

theorem rotation_precedes_collection_witness:
  "snapshot example_env example_profiler started_world =
     (Inr example_round, started_world\<lparr>trace := trace started_world @ example_round_events\<rparr>)
   \<and> example_round_events = [] @ [SendSignal 0 SIGUSR2] @ tl example_round_events
   \<and> tl example_round_events \<noteq> []
   \<and> list_all collect_event (tl example_round_events)
   \<and> map Some [SendSignal 0 SIGUSR2] = map (rotation_of started_world) (perfs example_profiler)
   \<and> (\<exists>pre rot col.
         trace (started_world\<lparr>trace := trace started_world @ example_round_events\<rparr>) =
           trace started_world @ pre @ rot @ col
         \<and> list_all attach_event pre \<and> list_all rotate_event rot \<and> list_all collect_event col
         \<and> (col \<noteq> [] \<longrightarrow> map Some rot = map (rotation_of started_world) (perfs example_profiler)))"
proof -
  have a: "example_round_events = [] @ [SendSignal 0 SIGUSR2] @ tl example_round_events"
    "tl example_round_events \<noteq> []" "list_all collect_event (tl example_round_events)"
    by (simp_all add: example_round_events_def)
  have b: "map Some [SendSignal 0 SIGUSR2] = map (rotation_of started_world) (perfs example_profiler)"
    by (simp add: example_profiler_def started_facts)
  from example_snapshot a b rotation_precedes_collection [OF example_snapshot]
  show ?thesis by blast
qed

theorem stop_signal_ends_the_round_witness:
  "before_wait stopped_env example_profiler started_world = (Inr (), started_world)
   \<and> (stop_already_set stopped_env \<or> stop_set_during_wait stopped_env (duration example_profiler))
   \<and> snapshot stopped_env example_profiler started_world =
        (Inl StopEventSetException, started_world)"
proof -
  have b: "before_wait stopped_env example_profiler started_world = (Inr (), started_world)"
    by (simp add: before_wait_def example_profiler_def returnE_def)
  have s: "stop_already_set stopped_env \<or> stop_set_during_wait stopped_env (duration example_profiler)"
    by (simp add: stopped_env_def)
  from b s stop_signal_ends_the_round [OF b s] show ?thesis by blast
qed







section \<open>The unwind controller runs without JIT injection\<close>

lemma set_process_keeps_flag:
  "inject_jit ((xs[i := (xs ! i)\<lparr>process := v\<rparr>]) ! r) = inject_jit (xs ! r)"
proof (cases "i < length xs")
  case True
  then show ?thesis by (simp add: nth_list_update)
next
  case False
  then have "xs[i := (xs ! i)\<lparr>process := v\<rparr>] = xs" by (simp add: list_update_beyond)
  then show ?thesis by simp
qed

lemma start_keeps_flag:
  "inject_jit (heap (snd (PerfProcess_start E s w)) ! r) = inject_jit (heap w ! r)"
  by (auto simp: PerfProcess_start_def deref_def monad_defs launch_def gone_def set_process_def
      set_process_keeps_flag split: sum.splits option.splits prod.splits)

lemma stop_keeps_flag:
  "inject_jit (heap (snd (PerfProcess_stop E s w)) ! r) = inject_jit (heap w ! r)"
  by (auto simp: PerfProcess_stop_def deref_def monad_defs gone_def set_process_def
      set_process_keeps_flag split: option.splits)

lemma collect_without_flag:
  assumes "r < length (heap w)" "\<not> inject_jit (heap w ! r)" "wait_and_script E r w = (res, w')"
  shows "\<exists>evs. trace w' = trace w @ evs \<and> (\<forall>x y. RunProcess (inject_cmd E x y) \<notin> set evs)"
proof -
  from assms(1,3) have "wait_and_script_of E (heap w ! r) w = (res, w')"
    by (simp add: wait_and_script_def bindE_def deref_def)
  from emitsD [OF no_inject_without_flag [OF assms(2)] this]
  show ?thesis by (auto simp: list_all_iff)
qed

lemma init_result:
  assumes "SystemProfiler_init freq dur dir psp mode stack_size inject node_attach w = (Inr sp, w1)"
  shows "(\<forall>r. perf_dwarf sp = Some r \<longrightarrow>
           r < length (heap w1)
           \<and> heap w1 ! r = PerfProcess_init freq (os_path_join dir [''perf.dwarf'']) True False
                 [''--call-graph'', ''dwarf,'' @ str_int stack_size])
       \<and> (\<forall>r. perf_fp sp = Some r \<longrightarrow>
           r < length (heap w1)
           \<and> heap w1 ! r = PerfProcess_init freq (os_path_join dir [''perf.fp'']) False inject [])"
  using assms
  by (auto simp: SystemProfiler_init_def new_PerfProcess_def monad_defs nth_append
      split: if_splits)

lemma init_succeeds:
  assumes "mode = ''fp'' \<or> mode = ''dwarf'' \<or> mode = ''smart''"
  shows "\<exists>sp w1. SystemProfiler_init freq dur dir psp mode stack_size inject node_attach w = (Inr sp, w1)"
  using assms
  by (auto simp: SystemProfiler_init_def new_PerfProcess_def monad_defs)

text \<open>
  C9. For each of the modes \<open>fp\<close>, \<open>dwarf\<close> and \<open>smart\<close> and either value of the injection
  flag the constructor of the orchestrator succeeds. Whenever it does, the unwind
  controller, if there is one, is made with injection off and with the call-graph
  arguments only; \<open>start\<close> and \<open>stop\<close> never change the flag of a controller; and a collect
  step of a controller whose flag is as constructed runs no \<open>perf inject\<close> command. The
  frame-pointer controller, if there is one, carries the flag that was asked for.
\<close>

theorem dwarf_controller_never_injects:
  "(mode = ''fp'' \<or> mode = ''dwarf'' \<or> mode = ''smart'' \<longrightarrow>
      (\<exists>sp' w1'. SystemProfiler_init freq dur dir psp mode stack_size inject node_attach w
          = (Inr sp', w1')))
   \<and> (SystemProfiler_init freq dur dir psp mode stack_size inject node_attach w = (Inr sp, w1) \<longrightarrow>
        (\<forall>r. perf_dwarf sp = Some r \<longrightarrow>
           r < length (heap w1)
           \<and> \<not> inject_jit (heap w1 ! r)
           \<and> extra_args (heap w1 ! r) = [''--call-graph'', ''dwarf,'' @ str_int stack_size]
           \<and> (\<forall>E s w2. inject_jit (heap (snd (PerfProcess_start E s w2)) ! r) = inject_jit (heap w2 ! r)
                      \<and> inject_jit (heap (snd (PerfProcess_stop E s w2)) ! r) = inject_jit (heap w2 ! r))
           \<and> (\<forall>E w2 res w3.
                 r < length (heap w2) \<and> inject_jit (heap w2 ! r) = inject_jit (heap w1 ! r)
                 \<and> wait_and_script E r w2 = (res, w3)
                 \<longrightarrow> (\<exists>evs. trace w3 = trace w2 @ evs
                        \<and> (\<forall>x y. RunProcess (inject_cmd E x y) \<notin> set evs))))
        \<and> (\<forall>r. perf_fp sp = Some r \<longrightarrow>
           r < length (heap w1) \<and> inject_jit (heap w1 ! r) = inject))"
proof -
  have a: "\<exists>sp' w1'. SystemProfiler_init freq dur dir psp mode stack_size inject node_attach w
          = (Inr sp', w1')" if "mode = ''fp'' \<or> mode = ''dwarf'' \<or> mode = ''smart''"
    using that by (rule init_succeeds)
  have b: "r < length (heap w1)
           \<and> \<not> inject_jit (heap w1 ! r)
           \<and> extra_args (heap w1 ! r) = [''--call-graph'', ''dwarf,'' @ str_int stack_size]
           \<and> (\<forall>E s w2. inject_jit (heap (snd (PerfProcess_start E s w2)) ! r) = inject_jit (heap w2 ! r)
                      \<and> inject_jit (heap (snd (PerfProcess_stop E s w2)) ! r) = inject_jit (heap w2 ! r))
           \<and> (\<forall>E w2 res w3.
                 r < length (heap w2) \<and> inject_jit (heap w2 ! r) = inject_jit (heap w1 ! r)
                 \<and> wait_and_script E r w2 = (res, w3)
                 \<longrightarrow> (\<exists>evs. trace w3 = trace w2 @ evs
                        \<and> (\<forall>x y. RunProcess (inject_cmd E x y) \<notin> set evs)))"
    if i: "SystemProfiler_init freq dur dir psp mode stack_size inject node_attach w = (Inr sp, w1)"
      and d: "perf_dwarf sp = Some r" for r
  proof -
    from init_result [OF i] d have l: "r < length (heap w1)"
      and o: "heap w1 ! r = PerfProcess_init freq (os_path_join dir [''perf.dwarf'']) True False
                 [''--call-graph'', ''dwarf,'' @ str_int stack_size]" by blast+
    have f: "\<not> inject_jit (heap w1 ! r)"
      "extra_args (heap w1 ! r) = [''--call-graph'', ''dwarf,'' @ str_int stack_size]"
      by (simp_all add: o PerfProcess_init_def)
    from l f start_keeps_flag stop_keeps_flag collect_without_flag show ?thesis
      by (metis (no_types, lifting))
  qed
  have c: "r < length (heap w1) \<and> inject_jit (heap w1 ! r) = inject"
    if i: "SystemProfiler_init freq dur dir psp mode stack_size inject node_attach w = (Inr sp, w1)"
      and d: "perf_fp sp = Some r" for r
    using init_result [OF i] d by (auto simp: PerfProcess_init_def)
  from a b c show ?thesis by blast
qed

lemma smart_init:
  "SystemProfiler_init 11 60 ''/tmp/gp'' False ''smart'' 8192 True False empty_world =
     (Inr smart_profiler, smart_world)"
proof -
  have d: "str_int 8192 = ''8192''" by (simp add: str_int_def str_nat.simps digit_char_def)
  show ?thesis
    by (simp add: SystemProfiler_init_def new_PerfProcess_def PerfProcess_init_def monad_defs
        os_path_join_def path_join2_def d smart_profiler_def smart_world_def empty_world_def)
qed

lemma smart_collect:
  "wait_and_script example_env 1 smart_started_world =
     (Inr ''node 4242/4242 [001] 1.0: cycles: 7f00 main+0x10'',
      smart_started_world\<lparr>trace :=
        [WaitForFile ''/tmp/gp/perf.dwarf.'' 5,
         Log Debug ''perf stderr: {self._process.stderr.read1(4096)}'' [],
         RunProcess [''/usr/bin/perf'', ''script'', ''-F'', ''+pid'', ''-i'',
                     ''/tmp/gp/perf.dwarf.2022010112000000''],
         Unlink ''/tmp/gp/perf.dwarf.2022010112000000'']\<rparr>)"
proof -
  have e: "wait_for_file_by_prefix example_env p t = Inr (p @ ''2022010112000000'')"
    "run_process example_env c = Inr ''node 4242/4242 [001] 1.0: cycles: 7f00 main+0x10''"
    "unlink example_env q = None" "bytes_decode example_env b = Inr b"
    "perf_path example_env = ''/usr/bin/perf''" for p t c q b
    by (simp_all add: example_env_def)
  show ?thesis
    by (simp add: wait_and_script_def wait_and_script_of_def deref_def smart_started_world_def
        empty_world_def e monad_defs script_cmd_def dump_timeout_s_def)
qed

theorem dwarf_controller_never_injects_witness:
  "(''smart'' = ''fp'' \<or> ''smart'' = ''dwarf'' \<or> ''smart'' = ''smart'')
   \<and> SystemProfiler_init 11 60 ''/tmp/gp'' False ''smart'' 8192 True False empty_world =
       (Inr smart_profiler, smart_world)
   \<and> perf_dwarf smart_profiler = Some 1
   \<and> perf_fp smart_profiler = Some 0
   \<and> \<not> inject_jit (heap smart_world ! 1)
   \<and> extra_args (heap smart_world ! 1) = [''--call-graph'', ''dwarf,8192'']
   \<and> inject_jit (heap smart_world ! 0)
   \<and> 1 < length (heap smart_started_world)
   \<and> inject_jit (heap smart_started_world ! 1) = inject_jit (heap smart_world ! 1)
   \<and> wait_and_script example_env 1 smart_started_world =
       (Inr ''node 4242/4242 [001] 1.0: cycles: 7f00 main+0x10'',
        smart_started_world\<lparr>trace :=
          [WaitForFile ''/tmp/gp/perf.dwarf.'' 5,
           Log Debug ''perf stderr: {self._process.stderr.read1(4096)}'' [],
           RunProcess [''/usr/bin/perf'', ''script'', ''-F'', ''+pid'', ''-i'',
                       ''/tmp/gp/perf.dwarf.2022010112000000''],
           Unlink ''/tmp/gp/perf.dwarf.2022010112000000'']\<rparr>)
   \<and> (\<exists>evs. [WaitForFile ''/tmp/gp/perf.dwarf.'' 5,
           Log Debug ''perf stderr: {self._process.stderr.read1(4096)}'' [],
           RunProcess [''/usr/bin/perf'', ''script'', ''-F'', ''+pid'', ''-i'',
                       ''/tmp/gp/perf.dwarf.2022010112000000''],
           Unlink ''/tmp/gp/perf.dwarf.2022010112000000''] = trace smart_started_world @ evs
          \<and> (\<forall>x y. RunProcess (inject_cmd example_env x y) \<notin> set evs))"
proof -
  have m: "''smart'' = ''fp'' \<or> ''smart'' = ''dwarf'' \<or> ''smart'' = ''smart''" by simp
  have p: "perf_dwarf smart_profiler = Some 1" "perf_fp smart_profiler = Some 0"
    by (simp_all add: smart_profiler_def)
  have h: "1 < length (heap smart_started_world)"
    "inject_jit (heap smart_started_world ! 1) = inject_jit (heap smart_world ! 1)"
    by (simp_all add: smart_started_world_def smart_world_def empty_world_def)
  note t = dwarf_controller_never_injects
    [of "''smart''" 11 60 "''/tmp/gp''" False 8192 True False empty_world smart_profiler smart_world]
  from t smart_init p have d: "\<not> inject_jit (heap smart_world ! 1)"
    "extra_args (heap smart_world ! 1) = [''--call-graph'', ''dwarf,'' @ str_int 8192]"
    "inject_jit (heap smart_world ! 0)"
    by blast+
  from t smart_init p(1) h smart_collect
  have c: "\<exists>evs. trace (smart_started_world\<lparr>trace :=
          [WaitForFile ''/tmp/gp/perf.dwarf.'' 5,
           Log Debug ''perf stderr: {self._process.stderr.read1(4096)}'' [],
           RunProcess [''/usr/bin/perf'', ''script'', ''-F'', ''+pid'', ''-i'',
                       ''/tmp/gp/perf.dwarf.2022010112000000''],
           Unlink ''/tmp/gp/perf.dwarf.2022010112000000'']\<rparr>) = trace smart_started_world @ evs
          \<and> (\<forall>x y. RunProcess (inject_cmd example_env x y) \<notin> set evs)"
    by blast
  have s: "str_int 8192 = ''8192''" by (simp add: str_int_def str_nat.simps digit_char_def)
  from m smart_init p d h smart_collect c show ?thesis
    by (simp add: s)
qed

end
